theory Spec2Isabelle
  imports Main
begin

section \<open>Strings, exceptions and JSON values\<close>

text \<open>
  A Python \<open>str\<close> is a sequence of Unicode code points; it is modelled as the list of
  its code points, so that \<open>len\<close>, slicing and equality count what Python counts.
  String literals of the source are written out as code point lists.
\<close>

type_synonym ustring = "nat list"

text \<open>
  The exceptions of \<open>scrapper.py\<close> and \<open>pipeline.py\<close>, the built-in exceptions their
  statements can raise, and \<open>RequestException\<close> for whatever \<open>requests.get\<close> raises.
\<close>

datatype error =
    IncorrectSeedURLError
  | NumberOfArticlesOutOfRangeError
  | IncorrectNumberOfArticlesError
  | IncorrectHeadersError
  | IncorrectEncodingError
  | IncorrectTimeoutError
  | IncorrectVerifyError
  | InconsistentDatasetError
  | EmptyDirectoryError
  | FileNotFoundError
  | NotADirectoryError
  | KeyError
  | TypeError
  | ValueError
  | AttributeError
  | IndexError
  | RequestException

text \<open>
  What \<open>json.load\<close> returns. A float carries mantissa and exponent; no operation of the
  validation reads them. A dict is the list of its items, keys distinct.
\<close>

datatype json =
    JNull
  | JBool bool
  | JInt int
  | JFloat int int
  | JStr ustring
  | JList "json list"
  | JDict "(ustring \<times> json) list"

text \<open>\<open>conf[key]\<close>: KeyError for a missing key, TypeError when \<open>conf\<close> is not a dict.\<close>

fun subscript :: "json \<Rightarrow> ustring \<Rightarrow> error + json" where
  "subscript (JDict items) key =
     (case map_of items key of None \<Rightarrow> Inl KeyError | Some v \<Rightarrow> Inr v)"
| "subscript _ key = Inl TypeError"

text \<open>\<open>isinstance(v, int)\<close>: \<open>bool\<close> is a subclass of \<open>int\<close> in Python.\<close>

fun isinstance_int :: "json \<Rightarrow> bool" where
  "isinstance_int (JInt n) = True"
| "isinstance_int (JBool b) = True"
| "isinstance_int _ = False"

fun isinstance_bool :: "json \<Rightarrow> bool" where
  "isinstance_bool (JBool b) = True"
| "isinstance_bool _ = False"

fun isinstance_list :: "json \<Rightarrow> bool" where
  "isinstance_list (JList xs) = True"
| "isinstance_list _ = False"

fun isinstance_dict :: "json \<Rightarrow> bool" where
  "isinstance_dict (JDict items) = True"
| "isinstance_dict _ = False"

fun isinstance_str :: "json \<Rightarrow> bool" where
  "isinstance_str (JStr s) = True"
| "isinstance_str _ = False"

text \<open>The number an \<open>int\<close> instance compares as: \<open>True\<close> is 1 and \<open>False\<close> is 0.\<close>

fun int_value :: "json \<Rightarrow> int" where
  "int_value (JInt n) = n"
| "int_value (JBool b) = (if b then 1 else 0)"
| "int_value _ = 0"

section \<open>Config validation (\<open>scrapper.py\<close>)\<close>

text \<open>The pattern \<open>https://\<close> of \<open>re.match\<close>.\<close>

definition https_prefix :: ustring where
  "https_prefix = [104, 116, 116, 112, 115, 58, 47, 47]"

text \<open>
  \<open>re.match(r"https://", seed_url)\<close> is truthy when the string starts with the pattern,
  and raises TypeError when \<open>seed_url\<close> is not a string.
\<close>

fun re_match_https :: "json \<Rightarrow> error + bool" where
  "re_match_https (JStr s) = Inr (take (length https_prefix) s = https_prefix)"
| "re_match_https _ = Inl TypeError"

text \<open>
  \<open>all(re.match(...) for seed_url in conf['seed_urls'])\<close>: the generator is consumed
  from the left and \<open>all\<close> stops at the first falsy item.
\<close>

fun all_match :: "json list \<Rightarrow> error + bool" where
  "all_match [] = Inr True"
| "all_match (x # xs) =
     (case re_match_https x of
        Inl e \<Rightarrow> Inl e
      | Inr b \<Rightarrow> if b then all_match xs else Inr False)"

definition key_seed_urls :: ustring where
  "key_seed_urls = [115, 101, 101, 100, 95, 117, 114, 108, 115]"

definition key_total_articles :: ustring where
  "key_total_articles = [116, 111, 116, 97, 108, 95, 97, 114, 116, 105, 99, 108, 101, 115, 95,
     116, 111, 95, 102, 105, 110, 100, 95, 97, 110, 100, 95, 112, 97, 114, 115, 101]"

definition key_headers :: ustring where
  "key_headers = [104, 101, 97, 100, 101, 114, 115]"

definition key_encoding :: ustring where
  "key_encoding = [101, 110, 99, 111, 100, 105, 110, 103]"

definition key_timeout :: ustring where
  "key_timeout = [116, 105, 109, 101, 111, 117, 116]"

definition key_should_verify_certificate :: ustring where
  "key_should_verify_certificate = [115, 104, 111, 117, 108, 100, 95, 118, 101, 114, 105, 102,
     121, 95, 99, 101, 114, 116, 105, 102, 105, 99, 97, 116, 101]"

definition key_headless_mode :: ustring where
  "key_headless_mode = [104, 101, 97, 100, 108, 101, 115, 115, 95, 109, 111, 100, 101]"

text \<open>Lines 113-118: the seed URL check.\<close>

definition check_seed_urls :: "json \<Rightarrow> error + unit" where
  "check_seed_urls conf =
     (case subscript conf key_seed_urls of
        Inl e \<Rightarrow> Inl e
      | Inr v \<Rightarrow>
          if \<not> isinstance_list v then Inl IncorrectSeedURLError
          else (case v of
                  JList xs \<Rightarrow>
                    (case all_match xs of
                       Inl e \<Rightarrow> Inl e
                     | Inr b \<Rightarrow> if b then Inr () else Inl IncorrectSeedURLError)
                | _ \<Rightarrow> Inl IncorrectSeedURLError))"

text \<open>Lines 120-124: the two checks of the number of articles.\<close>

definition check_num_articles :: "json \<Rightarrow> error + unit" where
  "check_num_articles conf =
     (case subscript conf key_total_articles of
        Inl e \<Rightarrow> Inl e
      | Inr num \<Rightarrow>
          if \<not> isinstance_int num \<or> int_value num < 0 \<or> isinstance_bool num
            then Inl IncorrectNumberOfArticlesError
          else if int_value num > 150 \<or> int_value num < 1
            then Inl NumberOfArticlesOutOfRangeError
          else Inr ())"

text \<open>Lines 126-127.\<close>

definition check_headers :: "json \<Rightarrow> error + unit" where
  "check_headers conf =
     (case subscript conf key_headers of
        Inl e \<Rightarrow> Inl e
      | Inr v \<Rightarrow> if \<not> isinstance_dict v then Inl IncorrectHeadersError else Inr ())"

text \<open>Lines 129-130.\<close>

definition check_encoding :: "json \<Rightarrow> error + unit" where
  "check_encoding conf =
     (case subscript conf key_encoding of
        Inl e \<Rightarrow> Inl e
      | Inr v \<Rightarrow> if \<not> isinstance_str v then Inl IncorrectEncodingError else Inr ())"

text \<open>
  Lines 132-134: \<open>or\<close> evaluates its right operand, and so reads \<open>headless_mode\<close>, only
  when the left one is false.
\<close>

definition check_verify :: "json \<Rightarrow> error + unit" where
  "check_verify conf =
     (case subscript conf key_should_verify_certificate of
        Inl e \<Rightarrow> Inl e
      | Inr v \<Rightarrow>
          if \<not> isinstance_bool v then Inl IncorrectVerifyError
          else (case subscript conf key_headless_mode of
                  Inl e \<Rightarrow> Inl e
                | Inr h \<Rightarrow> if \<not> isinstance_bool h then Inl IncorrectVerifyError else Inr ()))"

text \<open>Lines 136-138.\<close>

definition check_timeout :: "json \<Rightarrow> error + unit" where
  "check_timeout conf =
     (case subscript conf key_timeout of
        Inl e \<Rightarrow> Inl e
      | Inr v \<Rightarrow>
          if \<not> isinstance_int v \<or> int_value v \<ge> 60 \<or> int_value v \<le> 0
            then Inl IncorrectTimeoutError
          else Inr ())"

text \<open>Sequencing of statements: the first exception ends the function.\<close>

definition and_then :: "error + unit \<Rightarrow> error + unit \<Rightarrow> error + unit" where
  "and_then r s = (case r of Inl e \<Rightarrow> Inl e | Inr _ \<Rightarrow> s)"

text \<open>\<open>Config._validate_config_content\<close>, on the document that \<open>json.load\<close> returned.\<close>

definition validate_config_content :: "json \<Rightarrow> error + unit" where
  "validate_config_content conf =
     and_then (check_seed_urls conf)
    (and_then (check_num_articles conf)
    (and_then (check_headers conf)
    (and_then (check_encoding conf)
    (and_then (check_verify conf)
              (check_timeout conf)))))"

text \<open>
  A configuration document with the given seed URLs, number of articles and timeout, and
  well-typed values in the other four fields.
\<close>

definition mk_conf :: "json \<Rightarrow> json \<Rightarrow> json \<Rightarrow> json" where
  "mk_conf seeds num timeout =
     JDict [(key_seed_urls, seeds),
            (key_total_articles, num),
            (key_headers, JDict []),
            (key_encoding, JStr [117, 116, 102, 45, 56]),
            (key_timeout, timeout),
            (key_should_verify_certificate, JBool True),
            (key_headless_mode, JBool False)]"

text \<open>The seed URL \<open>https://a.b/news?page=0\<close>.\<close>

definition seed_example :: ustring where
  "seed_example = [104, 116, 116, 112, 115, 58, 47, 47, 97, 46, 98, 47, 110, 101, 119, 115,
     63, 112, 97, 103, 101, 61, 48]"

section \<open>Requests and parsed pages\<close>

text \<open>
  \<open>requests\<close> and \<open>bs4\<close> are libraries outside the repository. A response is its
  \<open>ok\<close> flag and the document that \<open>BeautifulSoup(response.text, ...)\<close> builds from its
  text. \<open>make_request\<close> is a function from the URL to the response, or to the exception
  that \<open>requests.get\<close> raised; the configuration is fixed during a run.
\<close>

record 'd response =
  ok :: bool
  doc :: 'd

type_synonym 'd network = "ustring \<Rightarrow> error + 'd response"

text \<open>
  An \<open>a\<close> element, as far as the crawler reads it: \<open>link.get('href')\<close> (None when the
  attribute is missing) and the items of \<open>link.stripped_strings\<close>.
\<close>

record anchor =
  anchor_href :: "ustring option"
  anchor_strings :: "ustring list"

text \<open>
  A listing page, as far as the crawler queries it: the result of
  \<open>findAll('a', hreflang='ru')\<close> in document order, and the result of
  \<open>find(class_='pager__item pager__item--last')\<close> followed by \<open>find('a')\<close>: None when no
  element has the class, \<open>Some None\<close> when the element holds no \<open>a\<close>.
\<close>

record soup =
  find_all_a_ru :: "anchor list"
  find_pager_last :: "anchor option option"

section \<open>Crawler (\<open>scrapper.py\<close>)\<close>

text \<open>The marker phrase of line 256, nine Cyrillic letters.\<close>

definition marker_phrase :: ustring where
  "marker_phrase = [1055, 1086, 1076, 1088, 1086, 1073, 1085, 1077, 1077]"

text \<open>The literal \<open>/news\<close> of line 260; only its length is used.\<close>

definition news_literal :: ustring where
  "news_literal = [47, 110, 101, 119, 115]"

text \<open>
  The crawler object. \<open>requested\<close> is not a field of the source: it records the URLs
  passed to \<open>make_request\<close>, in the order of the calls.
\<close>

record crawler =
  seed_urls :: "ustring list"
  urls :: "ustring list"
  url_pattern :: ustring
  requested :: "ustring list"

text \<open>
  \<open>Crawler.__init__\<close>: \<open>get_seed_urls()[0]\<close> raises IndexError on an empty list;
  \<open>split('?')[0]\<close> is the part before the first question mark (code point 63).
\<close>

definition crawler_init :: "ustring list \<Rightarrow> error + crawler" where
  "crawler_init seeds =
     (case seeds of
        [] \<Rightarrow> Inl IndexError
      | first # _ \<Rightarrow>
          Inr \<lparr>seed_urls = seeds, urls = [],
               url_pattern = takeWhile (\<lambda>c. c \<noteq> 63) first, requested = []\<rparr>)"

text \<open>\<open>url not in self.urls\<close>, where \<open>url\<close> may be None.\<close>

definition not_in_urls :: "ustring option \<Rightarrow> ustring list \<Rightarrow> bool" where
  "not_in_urls url collected =
     (case url of None \<Rightarrow> True | Some s \<Rightarrow> s \<notin> set collected)"

text \<open>
  The loop of lines 255-259. The second argument is the current value of \<open>url\<close>; the
  result is its value when the loop ends or breaks.
\<close>

fun scan_links :: "ustring list \<Rightarrow> ustring option \<Rightarrow> anchor list \<Rightarrow> ustring option" where
  "scan_links collected url [] = url"
| "scan_links collected url (link # links) =
     (if marker_phrase \<in> set (anchor_strings link)
      then (if not_in_urls (anchor_href link) collected
            then anchor_href link
            else scan_links collected (anchor_href link) links)
      else scan_links collected url links)"

text \<open>
  \<open>Crawler._extract_url\<close>. Slicing None at line 260 raises TypeError.
\<close>

definition extract_url :: "ustring \<Rightarrow> ustring list \<Rightarrow> soup \<Rightarrow> error + ustring" where
  "extract_url pattern collected article_bs =
     (case scan_links collected (Some []) (find_all_a_ru article_bs) of
        None \<Rightarrow> Inl TypeError
      | Some url \<Rightarrow> Inr (pattern @ drop (length news_literal) url))"

text \<open>A list comprehension whose items may raise: the first exception ends it.\<close>

fun collect :: "(error + 'a) list \<Rightarrow> error + 'a list" where
  "collect [] = Inr []"
| "collect (x # xs) =
     (case x of
        Inl e \<Rightarrow> Inl e
      | Inr v \<Rightarrow> (case collect xs of Inl e \<Rightarrow> Inl e | Inr vs \<Rightarrow> Inr (v # vs)))"

text \<open>
  The body of the loop over the seed URLs (lines 270-277 and 313-320): \<open>self.urls\<close> is
  extended only after the ten calls of \<open>_extract_url\<close>.
\<close>

definition crawl_page ::
    "soup network \<Rightarrow> 'a crawler_scheme \<Rightarrow> ustring \<Rightarrow> error + 'a crawler_scheme" where
  "crawl_page net c seed_url =
     (case net seed_url of
        Inl e \<Rightarrow> Inl e
      | Inr resp \<Rightarrow>
          let c1 = c\<lparr>requested := requested c @ [seed_url]\<rparr> in
          if \<not> ok resp then Inr c1
          else (case collect (map (\<lambda>i. extract_url (url_pattern c1) (urls c1) (doc resp))
                                  [0..<10]) of
                  Inl e \<Rightarrow> Inl e
                | Inr found \<Rightarrow> Inr (c1\<lparr>urls := urls c1 @ found\<rparr>)))"

fun crawl_pages ::
    "soup network \<Rightarrow> 'a crawler_scheme \<Rightarrow> ustring list \<Rightarrow> error + 'a crawler_scheme" where
  "crawl_pages net c [] = Inr c"
| "crawl_pages net c (seed_url # rest) =
     (case crawl_page net c seed_url of
        Inl e \<Rightarrow> Inl e
      | Inr c1 \<Rightarrow> crawl_pages net c1 rest)"

text \<open>\<open>Crawler.get_search_urls\<close> and \<open>Crawler.find_articles\<close>.\<close>

definition get_search_urls :: "'a crawler_scheme \<Rightarrow> ustring list" where
  "get_search_urls c = seed_urls c"

definition find_articles ::
    "soup network \<Rightarrow> 'a crawler_scheme \<Rightarrow> error + 'a crawler_scheme" where
  "find_articles net c = crawl_pages net c (get_search_urls c)"

section \<open>CrawlerRecursive (\<open>scrapper.py\<close>)\<close>

text \<open>
  \<open>int(s)\<close> and \<open>str(n)\<close> are built-ins, modelled after CPython 3.11 with the tables of
  Unicode 14.0. \<open>is_space\<close> lists the code points that Python counts as white space
  (\<open>str.isspace\<close>, and \<^verbatim>\<open>\s\<close> in a pattern), \<open>is_ascii_space\<close> those of C's \<open>isspace\<close>.
\<close>

definition is_space :: "nat \<Rightarrow> bool" where
  "is_space c =
     ((9 \<le> c \<and> c \<le> 13) \<or> (28 \<le> c \<and> c \<le> 32) \<or> c = 133 \<or> c = 160 \<or> c = 5760
      \<or> (8192 \<le> c \<and> c \<le> 8202) \<or> c = 8232 \<or> c = 8233 \<or> c = 8239 \<or> c = 8287
      \<or> c = 12288)"

definition is_ascii_space :: "nat \<Rightarrow> bool" where
  "is_ascii_space c = (c = 32 \<or> (9 \<le> c \<and> c \<le> 13))"

definition is_digit :: "nat \<Rightarrow> bool" where
  "is_digit c = (48 \<le> c \<and> c \<le> 57)"

definition digit_value :: "nat \<Rightarrow> nat" where
  "digit_value c = c - 48"

text \<open>
  The decimal digits of Unicode (category Nd) come in 66 runs of ten code points, the
  digits 0 to 9 in order; the list holds the code point of each zero. \<open>decimal_value\<close>
  is the digit that a code point stands for (\<open>Py_UNICODE_TODECIMAL\<close>), None when it is
  not a decimal digit.
\<close>

definition decimal_zeros :: "nat list" where
  "decimal_zeros =
     [48, 1632, 1776, 1984, 2406, 2534, 2662, 2790, 2918, 3046, 3174, 3302, 3430, 3558,
      3664, 3792, 3872, 4160, 4240, 6112, 6160, 6470, 6608, 6784, 6800, 6992, 7088, 7232,
      7248, 42528, 43216, 43264, 43472, 43504, 43600, 44016, 65296, 66720, 68912, 69734,
      69872, 69942, 70096, 70384, 70736, 70864, 71248, 71360, 71472, 71904, 72016, 72784,
      73040, 73120, 92768, 92864, 93008, 120782, 120792, 120802, 120812, 120822, 123200,
      123632, 125264, 130032]"

definition decimal_value :: "nat \<Rightarrow> nat option" where
  "decimal_value c =
     (case find (\<lambda>z. z \<le> c \<and> c \<le> z + 9) decimal_zeros of
        None \<Rightarrow> None
      | Some z \<Rightarrow> Some (c - z))"

text \<open>
  \<open>int\<close> first rewrites the string to ASCII: a code point below 127 stays, above that
  white space becomes a space, a decimal digit becomes its ASCII digit, and anything
  else becomes a question mark (code point 63), which no number contains.
\<close>

definition to_ascii :: "nat \<Rightarrow> nat" where
  "to_ascii c =
     (if c < 127 then c
      else if is_space c then 32
      else (case decimal_value c of None \<Rightarrow> 63 | Some d \<Rightarrow> 48 + d))"

text \<open>
  Then it reads, between ASCII white space, an optional sign and decimal digits with
  single underscores (code point 95) between them. \<open>digits_value\<close> reads the digits
  after the first.
\<close>

fun digits_value :: "nat \<Rightarrow> ustring \<Rightarrow> nat option" where
  "digits_value acc [] = Some acc"
| "digits_value acc (c # cs) =
     (if is_digit c then digits_value (10 * acc + digit_value c) cs
      else if c = 95 \<and> cs \<noteq> [] \<and> is_digit (hd cs) then digits_value acc cs
      else None)"

definition strip :: "ustring \<Rightarrow> ustring" where
  "strip s = rev (dropWhile is_ascii_space (rev (dropWhile is_ascii_space s)))"

text \<open>
  The default of \<open>sys.int_max_str_digits\<close>: a string with more digits raises ValueError.
\<close>

definition int_max_str_digits :: nat where
  "int_max_str_digits = 4300"

definition py_int :: "ustring \<Rightarrow> error + int" where
  "py_int s =
     (let t = strip (map to_ascii s);
          negative = (t \<noteq> [] \<and> hd t = 45);
          body = (if t \<noteq> [] \<and> (hd t = 45 \<or> hd t = 43) then tl t else t)
      in if body \<noteq> [] \<and> is_digit (hd body)
         then (case digits_value 0 body of
                 None \<Rightarrow> Inl ValueError
               | Some n \<Rightarrow>
                   if length (filter is_digit body) > int_max_str_digits then Inl ValueError
                   else Inr (if negative then - int n else int n))
         else Inl ValueError)"

fun str_nat :: "nat \<Rightarrow> ustring" where
  "str_nat n = (if n < 10 then [48 + n] else str_nat (n div 10) @ [48 + n mod 10])"

declare str_nat.simps [simp del]

record crawler_recursive = crawler +
  inforced_stop :: bool
  start_url :: ustring

text \<open>\<open>CrawlerRecursive.__init__\<close>: \<open>[:-1]\<close> drops the last character.\<close>

definition crawler_recursive_init :: "ustring list \<Rightarrow> error + crawler_recursive" where
  "crawler_recursive_init seeds =
     (case crawler_init seeds of
        Inl e \<Rightarrow> Inl e
      | Inr c \<Rightarrow>
          Inr (crawler.extend c
                 \<lparr>inforced_stop = False, start_url = butlast (hd seeds)\<rparr>))"

text \<open>
  Lines 306-307 on a successful bootstrap response: \<open>find\<close> of a None raises
  AttributeError, subscripting None raises TypeError, a missing \<open>href\<close> raises KeyError,
  and \<open>int\<close> raises ValueError.
\<close>

definition read_last_page :: "soup \<Rightarrow> error + int" where
  "read_last_page article_bs =
     (case find_pager_last article_bs of
        None \<Rightarrow> Inl AttributeError
      | Some None \<Rightarrow> Inl TypeError
      | Some (Some a) \<Rightarrow>
          (case anchor_href a of None \<Rightarrow> Inl KeyError | Some h \<Rightarrow> py_int h))"

text \<open>Lines 309-310: \<open>range(0, last_page)\<close> is empty when \<open>last_page\<close> is not positive.\<close>

definition page_urls :: "ustring \<Rightarrow> int \<Rightarrow> ustring list" where
  "page_urls start last_page = map (\<lambda>num. start @ str_nat num) [0..<nat last_page]"

text \<open>
  \<open>CrawlerRecursive.find_articles\<close>: the bootstrap request, then the loop of the flat
  crawler over the synthesized page URLs.
\<close>

definition find_articles_recursive ::
    "soup network \<Rightarrow> crawler_recursive \<Rightarrow> error + crawler_recursive" where
  "find_articles_recursive net c =
     (case net (start_url c) of
        Inl e \<Rightarrow> Inl e
      | Inr resp \<Rightarrow>
          let c1 = c\<lparr>requested := requested c @ [start_url c]\<rparr> in
          (case (if ok resp then read_last_page (doc resp) else Inr 0) of
             Inl e \<Rightarrow> Inl e
           | Inr last_page \<Rightarrow> crawl_pages net c1 (page_urls (start_url c1) last_page)))"

section \<open>Dates\<close>

text \<open>
  \<open>datetime.datetime.strptime\<close> belongs to the standard library. The model follows the
  regular expression that CPython compiles for the format \<open>%Y-%m-%d %H:%M:%S\<close>,
  \<^verbatim>\<open>(\d\d\d\d)-(1[0-2]|0[1-9]|[1-9])-(3[0-1]|[1-2]\d|0[1-9]|[1-9]| [1-9])\s+\<close>
  \<^verbatim>\<open>(2[0-3]|[0-1]\d|\d):([0-5]\d|\d):(6[0-1]|[0-5]\d|\d)\<close>,
  where \<^verbatim>\<open>\d\<close> is any decimal digit of Unicode and a class such as \<^verbatim>\<open>[0-2]\<close> holds
  ASCII digits only. A parser returns its possible results in the order in which the
  backtracking matcher tries them; the value of a field is what \<open>int\<close> makes of it.
\<close>

record datetime =
  year :: nat
  month :: nat
  day :: nat
  hour :: nat
  minute :: nat
  second :: nat

type_synonym 'a parser = "ustring \<Rightarrow> ('a \<times> ustring) list"

text \<open>A class of ASCII digits, from \<open>lo\<close> to \<open>hi\<close>.\<close>

fun one_digit :: "nat \<Rightarrow> nat \<Rightarrow> nat parser" where
  "one_digit lo hi [] = []"
| "one_digit lo hi (c # cs) =
     (if is_digit c \<and> lo \<le> digit_value c \<and> digit_value c \<le> hi
      then [(digit_value c, cs)] else [])"

text \<open>\<^verbatim>\<open>\d\<close>: any decimal digit.\<close>

fun any_digit :: "nat parser" where
  "any_digit [] = []"
| "any_digit (c # cs) = (case decimal_value c of None \<Rightarrow> [] | Some d \<Rightarrow> [(d, cs)])"

definition then_parse :: "'a parser \<Rightarrow> ('a \<Rightarrow> 'b parser) \<Rightarrow> 'b parser" where
  "then_parse p f s = concat (map (\<lambda>(a, rest). f a rest) (p s))"

definition yield :: "'a \<Rightarrow> 'a parser" where
  "yield a s = [(a, s)]"

definition two_digits :: "nat parser \<Rightarrow> nat parser \<Rightarrow> nat parser" where
  "two_digits p q = then_parse p (\<lambda>a. then_parse q (\<lambda>b. yield (10 * a + b)))"

definition alternatives :: "'a parser list \<Rightarrow> 'a parser" where
  "alternatives ps s = concat (map (\<lambda>p. p s) ps)"

definition literal :: "nat \<Rightarrow> unit parser" where
  "literal c s = (case s of [] \<Rightarrow> [] | x # rest \<Rightarrow> if x = c then [((), rest)] else [])"

text \<open>\<^verbatim>\<open>\s+\<close>: one or more white space characters, the longest run first.\<close>

definition spaces :: "unit parser" where
  "spaces s = map (\<lambda>j. ((), drop j s)) (rev [1..<Suc (length (takeWhile is_space s))])"

definition parse_year :: "nat parser" where
  "parse_year =
     then_parse any_digit (\<lambda>a. then_parse any_digit (\<lambda>b.
     then_parse any_digit (\<lambda>c. then_parse any_digit (\<lambda>d.
       yield (1000 * a + 100 * b + 10 * c + d)))))"

definition parse_month :: "nat parser" where
  "parse_month =
     alternatives [two_digits (one_digit 1 1) (one_digit 0 2),
                   two_digits (one_digit 0 0) (one_digit 1 9),
                   one_digit 1 9]"

definition parse_day :: "nat parser" where
  "parse_day =
     alternatives [two_digits (one_digit 3 3) (one_digit 0 1),
                   two_digits (one_digit 1 2) any_digit,
                   two_digits (one_digit 0 0) (one_digit 1 9),
                   one_digit 1 9,
                   then_parse (literal 32) (\<lambda>_. one_digit 1 9)]"

definition parse_hour :: "nat parser" where
  "parse_hour =
     alternatives [two_digits (one_digit 2 2) (one_digit 0 3),
                   two_digits (one_digit 0 1) any_digit,
                   any_digit]"

definition parse_minute :: "nat parser" where
  "parse_minute = alternatives [two_digits (one_digit 0 5) any_digit, any_digit]"

definition parse_second :: "nat parser" where
  "parse_second =
     alternatives [two_digits (one_digit 6 6) (one_digit 0 1),
                   two_digits (one_digit 0 5) any_digit,
                   any_digit]"

definition format_regex :: "datetime parser" where
  "format_regex =
     then_parse parse_year (\<lambda>y. then_parse (literal 45) (\<lambda>_.
     then_parse parse_month (\<lambda>m. then_parse (literal 45) (\<lambda>_.
     then_parse parse_day (\<lambda>d. then_parse spaces (\<lambda>_.
     then_parse parse_hour (\<lambda>h. then_parse (literal 58) (\<lambda>_.
     then_parse parse_minute (\<lambda>mi. then_parse (literal 58) (\<lambda>_.
     then_parse parse_second (\<lambda>sec.
       yield \<lparr>year = y, month = m, day = d, hour = h, minute = mi, second = sec\<rparr>)))))))))))"

definition is_leap :: "nat \<Rightarrow> bool" where
  "is_leap y = (y mod 4 = 0 \<and> (y mod 100 \<noteq> 0 \<or> y mod 400 = 0))"

definition days_in_month :: "nat \<Rightarrow> nat \<Rightarrow> nat" where
  "days_in_month y m =
     (if m = 2 then (if is_leap y then 29 else 28)
      else if m = 4 \<or> m = 6 \<or> m = 9 \<or> m = 11 then 30 else 31)"

text \<open>
  What the constructor of \<open>datetime\<close> accepts; any other field raises ValueError.
\<close>

definition datetime_accepts :: "datetime \<Rightarrow> bool" where
  "datetime_accepts dt =
     (1 \<le> year dt \<and> year dt \<le> 9999 \<and> 1 \<le> month dt \<and> month dt \<le> 12
      \<and> 1 \<le> day dt \<and> day dt \<le> days_in_month (year dt) (month dt)
      \<and> hour dt \<le> 23 \<and> minute dt \<le> 59 \<and> second dt \<le> 59)"

text \<open>\<open>re.match\<close> returns the first match that the matcher finds, or None.\<close>

definition first_match :: "('a \<times> ustring) list \<Rightarrow> ('a \<times> ustring) option" where
  "first_match results = (case results of [] \<Rightarrow> None | x # _ \<Rightarrow> Some x)"

text \<open>
  \<open>strptime\<close>: ValueError when the expression does not match, when the match ends
  before the end of the string, and when \<open>datetime\<close> does not accept the fields.
\<close>

definition strptime :: "ustring \<Rightarrow> error + datetime" where
  "strptime date_str =
     (case first_match (format_regex date_str) of
        None \<Rightarrow> Inl ValueError
      | Some (dt, rest) \<Rightarrow>
          if rest \<noteq> [] then Inl ValueError
          else if datetime_accepts dt then Inr dt
          else Inl ValueError)"

subsection \<open>The texts of the format\<close>

text \<open>
  The texts that the expression above describes, field by field and without any order
  of trial: \<open>in_class lo hi c d\<close> says that \<open>c\<close> is an ASCII digit of value \<open>d\<close> between
  \<open>lo\<close> and \<open>hi\<close>, \<open>is_decimal c d\<close> that \<open>c\<close> is a decimal digit of value \<open>d\<close>. A field of
  two digits has the value \<open>10 * a + b\<close>.
\<close>

definition in_class :: "nat \<Rightarrow> nat \<Rightarrow> nat \<Rightarrow> nat \<Rightarrow> bool" where
  "in_class lo hi c d = (is_digit c \<and> lo \<le> digit_value c \<and> digit_value c \<le> hi \<and> d = digit_value c)"

definition is_decimal :: "nat \<Rightarrow> nat \<Rightarrow> bool" where
  "is_decimal c d = (decimal_value c = Some d)"

definition single_text :: "(nat \<Rightarrow> nat \<Rightarrow> bool) \<Rightarrow> ustring \<Rightarrow> nat \<Rightarrow> bool" where
  "single_text P t v = (\<exists>c. t = [c] \<and> P c v)"

definition pair_text ::
    "(nat \<Rightarrow> nat \<Rightarrow> bool) \<Rightarrow> (nat \<Rightarrow> nat \<Rightarrow> bool) \<Rightarrow> ustring \<Rightarrow> nat \<Rightarrow> bool" where
  "pair_text P Q t v = (\<exists>c1 c2 a b. t = [c1, c2] \<and> P c1 a \<and> Q c2 b \<and> v = 10 * a + b)"

definition year_text :: "ustring \<Rightarrow> nat \<Rightarrow> bool" where
  "year_text t y =
     (\<exists>c1 c2 c3 c4 a b c d.
        t = [c1, c2, c3, c4] \<and> is_decimal c1 a \<and> is_decimal c2 b \<and> is_decimal c3 c
        \<and> is_decimal c4 d \<and> y = 1000 * a + 100 * b + 10 * c + d)"

definition month_text :: "ustring \<Rightarrow> nat \<Rightarrow> bool" where
  "month_text t m =
     (pair_text (in_class 1 1) (in_class 0 2) t m
      \<or> pair_text (in_class 0 0) (in_class 1 9) t m
      \<or> single_text (in_class 1 9) t m)"

definition day_text :: "ustring \<Rightarrow> nat \<Rightarrow> bool" where
  "day_text t d =
     (pair_text (in_class 3 3) (in_class 0 1) t d
      \<or> pair_text (in_class 1 2) is_decimal t d
      \<or> pair_text (in_class 0 0) (in_class 1 9) t d
      \<or> single_text (in_class 1 9) t d
      \<or> (\<exists>t'. t = 32 # t' \<and> single_text (in_class 1 9) t' d))"

definition hour_text :: "ustring \<Rightarrow> nat \<Rightarrow> bool" where
  "hour_text t h =
     (pair_text (in_class 2 2) (in_class 0 3) t h
      \<or> pair_text (in_class 0 1) is_decimal t h
      \<or> single_text is_decimal t h)"

definition minute_text :: "ustring \<Rightarrow> nat \<Rightarrow> bool" where
  "minute_text t m =
     (pair_text (in_class 0 5) is_decimal t m \<or> single_text is_decimal t m)"

definition second_text :: "ustring \<Rightarrow> nat \<Rightarrow> bool" where
  "second_text t sec =
     (pair_text (in_class 6 6) (in_class 0 1) t sec
      \<or> pair_text (in_class 0 5) is_decimal t sec
      \<or> single_text is_decimal t sec)"

definition space_text :: "ustring \<Rightarrow> bool" where
  "space_text t = (t \<noteq> [] \<and> list_all is_space t)"

text \<open>
  A date text: year, hyphen, month, hyphen, day, white space, hour, colon, minute,
  colon, second, and nothing else.
\<close>

definition date_text :: "ustring \<Rightarrow> datetime \<Rightarrow> bool" where
  "date_text s dt =
     (\<exists>ty tm td tw th tmi ts.
        s = ty @ [45] @ tm @ [45] @ td @ tw @ th @ [58] @ tmi @ [58] @ ts
        \<and> year_text ty (year dt) \<and> month_text tm (month dt) \<and> day_text td (day dt)
        \<and> space_text tw \<and> hour_text th (hour dt) \<and> minute_text tmi (minute dt)
        \<and> second_text ts (second dt))"

text \<open>
  The fixed form \<open>YYYY-MM-DD HH:MM:SS\<close> of the spec: nineteen characters, ASCII digits
  at the places of the letters, the two hyphens, one space and the two colons.
\<close>

definition strict_format :: "ustring \<Rightarrow> bool" where
  "strict_format s =
     (length s = 19
      \<and> list_all (\<lambda>i. is_digit (s ! i)) [0, 1, 2, 3, 5, 6, 8, 9, 11, 12, 14, 15, 17, 18]
      \<and> s ! 4 = 45 \<and> s ! 7 = 45 \<and> s ! 10 = 32 \<and> s ! 13 = 58 \<and> s ! 16 = 58)"

text \<open>The date and time that a text of the fixed form denotes.\<close>

definition strict_value :: "ustring \<Rightarrow> datetime" where
  "strict_value s =
     \<lparr>year = 1000 * digit_value (s ! 0) + 100 * digit_value (s ! 1)
               + 10 * digit_value (s ! 2) + digit_value (s ! 3),
      month = 10 * digit_value (s ! 5) + digit_value (s ! 6),
      day = 10 * digit_value (s ! 8) + digit_value (s ! 9),
      hour = 10 * digit_value (s ! 11) + digit_value (s ! 12),
      minute = 10 * digit_value (s ! 14) + digit_value (s ! 15),
      second = 10 * digit_value (s ! 17) + digit_value (s ! 18)\<rparr>"

section \<open>HTMLParser (\<open>scrapper.py\<close>)\<close>

text \<open>
  Modelled from the spec: class \<open>Article\<close> of \<open>core_utils\<close> is not among the sources. An
  article has its identity (URL and id) and the five fields that the parser fills; the
  constructor sets the identity and leaves the other fields unset (None).
\<close>

record article =
  article_url :: ustring
  article_id :: int
  article_title :: "ustring option"
  article_text :: "ustring option"
  article_date :: "datetime option"
  article_author :: "ustring list option"
  article_topics :: "ustring option list option"

definition Article :: "ustring \<Rightarrow> int \<Rightarrow> article" where
  "Article u i =
     \<lparr>article_url = u, article_id = i, article_title = None, article_text = None,
      article_date = None, article_author = None, article_topics = None\<rparr>"

text \<open>
  An article page, as far as the parser queries it: \<open>find(itemprop="headline")\<close> with its
  \<open>.string\<close>, the \<open>.string\<close> of every \<open>p\<close>, \<open>find(itemprop="datePublished")\<close> with its
  \<open>datetime\<close> attribute, the \<open>.string\<close> of every \<open>strong\<close>, and for every element of the
  topics class the \<open>.string\<close> of every \<open>a\<close> in it. A \<open>.string\<close> may be None.
\<close>

record article_soup =
  find_headline :: "ustring option option"
  find_all_p :: "ustring option list"
  find_date_published :: "ustring option option"
  find_all_strong :: "ustring option list"
  find_all_topic_fields :: "ustring option list list"

record html_parser =
  full_url :: ustring
  parser_article_id :: int
  parser_article :: article

definition html_parser_init :: "ustring \<Rightarrow> int \<Rightarrow> html_parser" where
  "html_parser_init u i =
     \<lparr>full_url = u, parser_article_id = i, parser_article = Article u i\<rparr>"

text \<open>An f-string formats None as the four letters \<open>None\<close>.\<close>

definition format_string :: "ustring option \<Rightarrow> ustring" where
  "format_string v = (case v of None \<Rightarrow> [78, 111, 110, 101] | Some s \<Rightarrow> s)"

text \<open>One round of the loop of lines 353-356; code point 10 is the newline.\<close>

definition add_text_block :: "ustring \<Rightarrow> ustring option \<Rightarrow> ustring" where
  "add_text_block raw_text block =
     (case block of
        None \<Rightarrow> raw_text
      | Some t \<Rightarrow> if t = [] then raw_text else raw_text @ [10] @ t)"

text \<open>\<open>_fill_article_with_text\<close>: \<open>headline.string\<close> of a None raises AttributeError.\<close>

definition fill_article_with_text :: "article_soup \<Rightarrow> article \<Rightarrow> error + article" where
  "fill_article_with_text article_bs a =
     (case find_headline article_bs of
        None \<Rightarrow> Inl AttributeError
      | Some headline \<Rightarrow>
          Inr (a\<lparr>article_text :=
                   Some (foldl add_text_block (format_string headline) (find_all_p article_bs))\<rparr>))"

text \<open>\<open>unify_date_format\<close>.\<close>

definition unify_date_format :: "ustring \<Rightarrow> error + datetime" where
  "unify_date_format date_str = strptime date_str"

definition not_found :: ustring where
  "not_found = [78, 79, 84, 32, 70, 79, 85, 78, 68]"

text \<open>
  \<open>_fill_article_with_meta_information\<close>, statement by statement: the title, the date
  (subscripting None raises TypeError, a missing attribute KeyError), the author
  (index 1 of a shorter list raises IndexError) and the topics.
\<close>

definition fill_article_with_meta_information ::
    "article_soup \<Rightarrow> article \<Rightarrow> error + article" where
  "fill_article_with_meta_information article_bs a =
     (case find_headline article_bs of
        None \<Rightarrow> Inl AttributeError
      | Some headline \<Rightarrow>
          let a1 = a\<lparr>article_title := headline\<rparr> in
          (case find_date_published article_bs of
             None \<Rightarrow> Inl TypeError
           | Some None \<Rightarrow> Inl KeyError
           | Some (Some date_str) \<Rightarrow>
               (case unify_date_format date_str of
                  Inl e \<Rightarrow> Inl e
                | Inr dt \<Rightarrow>
                    let a2 = a1\<lparr>article_date := Some dt\<rparr> in
                    (case find_all_strong article_bs of
                       _ # author # _ \<Rightarrow>
                         let a3 = (case author of
                                     None \<Rightarrow> a2\<lparr>article_author := Some [not_found]\<rparr>
                                   | Some name \<Rightarrow>
                                       if name \<noteq> []
                                       then a2\<lparr>article_author := Some [name]\<rparr>
                                       else a2\<lparr>article_author := Some [not_found]\<rparr>) in
                         (case find_all_topic_fields article_bs of
                            [] \<Rightarrow> Inl IndexError
                          | topics # _ \<Rightarrow> Inr (a3\<lparr>article_topics := Some topics\<rparr>))
                     | _ \<Rightarrow> Inl IndexError))))"

text \<open>\<open>HTMLParser.parse\<close>.\<close>

definition parse :: "article_soup network \<Rightarrow> html_parser \<Rightarrow> error + article" where
  "parse net p =
     (case net (full_url p) of
        Inl e \<Rightarrow> Inl e
      | Inr resp \<Rightarrow>
          if ok resp
          then (case fill_article_with_text (doc resp) (parser_article p) of
                  Inl e \<Rightarrow> Inl e
                | Inr a1 \<Rightarrow> fill_article_with_meta_information (doc resp) a1)
          else Inr (parser_article p))"

text \<open>
  The loop of \<open>main\<close> (lines 437-441). \<open>to_raw\<close> and \<open>to_meta\<close> belong to \<open>core_utils\<close>,
  which is not among the sources; they are parameters that take the article and the
  files written so far and return the files, or raise. The first argument counts the
  rounds as \<open>enumerate\<close> does.
\<close>

fun main_loop ::
    "article_soup network \<Rightarrow> (article \<Rightarrow> 's \<Rightarrow> error + 's) \<Rightarrow> (article \<Rightarrow> 's \<Rightarrow> error + 's)
       \<Rightarrow> int \<Rightarrow> ustring list \<Rightarrow> 's \<Rightarrow> error + 's" where
  "main_loop net to_raw to_meta index [] files = Inr files"
| "main_loop net to_raw to_meta index (u # rest) files =
     (case parse net (html_parser_init u (index + 1)) of
        Inl e \<Rightarrow> Inl e
      | Inr a \<Rightarrow>
          (case to_raw a files of
             Inl e \<Rightarrow> Inl e
           | Inr files1 \<Rightarrow>
               (case to_meta a files1 of
                  Inl e \<Rightarrow> Inl e
                | Inr files2 \<Rightarrow> main_loop net to_raw to_meta (index + 1) rest files2)))"

text \<open>The date texts \<open>2023-05-01 12:00:00\<close> and \<open>May 1, 2023\<close>.\<close>

definition date_text_iso :: ustring where
  "date_text_iso = [50, 48, 50, 51, 45, 48, 53, 45, 48, 49, 32, 49, 50, 58, 48, 48, 58, 48, 48]"


text \<open>The date text \<open>2023-5-1 1:2:3\<close>, with fields of one digit.\<close>

definition date_text_short :: ustring where
  "date_text_short = [50, 48, 50, 51, 45, 53, 45, 49, 32, 49, 58, 50, 58, 51]"

text \<open>
  An article page with a headline (\<open>abc\<close>), the given date text, two \<open>strong\<close> elements
  and one topics element.
\<close>

definition article_page :: "ustring \<Rightarrow> article_soup" where
  "article_page date_str =
     \<lparr>find_headline = Some (Some [97, 98, 99]),
      find_all_p = [Some [100, 101], None, Some []],
      find_date_published = Some (Some date_str),
      find_all_strong = [Some [120], Some [121]],
      find_all_topic_fields = [[Some [122]]]\<rparr>"

text \<open>A sink that appends the article to the list of what was written.\<close>

definition append_sink :: "article \<Rightarrow> article list \<Rightarrow> error + article list" where
  "append_sink a files = Inr (files @ [a])"

section \<open>CorpusManager (\<open>pipeline.py\<close>)\<close>

text \<open>
  What \<open>_validate_dataset\<close> reads of the file system: whether the path exists and is a
  directory, and for a directory its entries in the order in which \<open>iterdir\<close> and
  \<open>glob\<close> list them, each with its name and the size that \<open>stat\<close> reports.
\<close>

record dir_entry =
  file_name :: ustring
  st_size :: nat

datatype path = Missing | NotDirectory | Directory "dir_entry list"

text \<open>The patterns \<open>*_meta.json\<close> and \<open>*_raw.txt\<close> match the names with these endings.\<close>

definition meta_suffix :: ustring where
  "meta_suffix = [95, 109, 101, 116, 97, 46, 106, 115, 111, 110]"

definition raw_suffix :: ustring where
  "raw_suffix = [95, 114, 97, 119, 46, 116, 120, 116]"

definition ends_with :: "ustring \<Rightarrow> ustring \<Rightarrow> bool" where
  "ends_with suffix name =
     (length suffix \<le> length name \<and> drop (length name - length suffix) name = suffix)"

definition glob :: "ustring \<Rightarrow> dir_entry list \<Rightarrow> dir_entry list" where
  "glob suffix entries = filter (\<lambda>f. ends_with suffix (file_name f)) entries"

text \<open>
  The loop of lines 75-79 over the zipped pairs; the first argument is \<open>index\<close>.
  \<open>get_article_id_from_filepath\<close> belongs to \<open>core_utils\<close>, which is not among the
  sources: it is a parameter, a function from the file name to the id.
\<close>

fun check_pairs :: "(ustring \<Rightarrow> int) \<Rightarrow> nat \<Rightarrow> (dir_entry \<times> dir_entry) list \<Rightarrow> error + unit" where
  "check_pairs get_id index [] = Inr ()"
| "check_pairs get_id index ((meta, raw) # rest) =
     (if int index + 1 \<noteq> get_id (file_name meta)
         \<or> int index + 1 \<noteq> get_id (file_name raw)
         \<or> st_size meta = 0 \<or> st_size raw = 0
      then Inl InconsistentDatasetError
      else check_pairs get_id (Suc index) rest)"

text \<open>\<open>CorpusManager._validate_dataset\<close>; \<open>list.sort\<close> with a key is a stable sort.\<close>

definition validate_dataset :: "(ustring \<Rightarrow> int) \<Rightarrow> path \<Rightarrow> error + unit" where
  "validate_dataset get_id p =
     (case p of
        Missing \<Rightarrow> Inl FileNotFoundError
      | NotDirectory \<Rightarrow> Inl NotADirectoryError
      | Directory entries \<Rightarrow>
          if entries = [] then Inl EmptyDirectoryError
          else
            let metas = glob meta_suffix entries;
                raws = glob raw_suffix entries
            in if length metas \<noteq> length raws then Inl InconsistentDatasetError
               else check_pairs get_id 0
                      (zip (sort_key (\<lambda>x. get_id (file_name x)) metas)
                           (sort_key (\<lambda>x. get_id (file_name x)) raws)))"

text \<open>The ids of a list of files in ascending order, and the sequence \<open>1..n\<close>.\<close>

definition sorted_ids :: "(ustring \<Rightarrow> int) \<Rightarrow> dir_entry list \<Rightarrow> int list" where
  "sorted_ids get_id fs = sort (map (\<lambda>x. get_id (file_name x)) fs)"

definition one_to :: "nat \<Rightarrow> int list" where
  "one_to n = map int [1..<Suc n]"

text \<open>
  Modelled from the spec: \<open>get_article_id_from_filepath\<close> is not among the sources; the
  spec speaks of the integer id embedded in the name of the artifact. Here it is the
  integer written before the first underscore (code point 95) of the name, and 0 when
  there is none.
\<close>

definition embedded_id :: "ustring \<Rightarrow> int" where
  "embedded_id name =
     (case py_int (takeWhile (\<lambda>c. c \<noteq> 95) name) of Inl e \<Rightarrow> 0 | Inr i \<Rightarrow> i)"

text \<open>Artifacts with a one-digit id and seven bytes of content.\<close>

definition raw_file :: "nat \<Rightarrow> dir_entry" where
  "raw_file d = \<lparr>file_name = (48 + d) # raw_suffix, st_size = 7\<rparr>"

definition meta_file :: "nat \<Rightarrow> dir_entry" where
  "meta_file d = \<lparr>file_name = (48 + d) # meta_suffix, st_size = 7\<rparr>"

section \<open>Example pages and crawlers\<close>

text \<open>Whether the request for a URL returns a response with \<open>ok\<close> set.\<close>

definition fetch_ok :: "soup network \<Rightarrow> ustring \<Rightarrow> bool" where
  "fetch_ok net u = (case net u of Inl e \<Rightarrow> False | Inr r \<Rightarrow> ok r)"

text \<open>The path \<open>/news/\<close> followed by one more character.\<close>

definition news_path :: "nat \<Rightarrow> ustring" where
  "news_path c = [47, 110, 101, 119, 115, 47, c]"

definition empty_page :: soup where
  "empty_page = \<lparr>find_all_a_ru = [], find_pager_last = None\<rparr>"

text \<open>A page with three anchors that carry the marker phrase and an \<open>href\<close>.\<close>

definition page_three_anchors :: soup where
  "page_three_anchors =
     \<lparr>find_all_a_ru =
        [\<lparr>anchor_href = Some (news_path 49), anchor_strings = [marker_phrase]\<rparr>,
         \<lparr>anchor_href = Some (news_path 50), anchor_strings = [marker_phrase]\<rparr>,
         \<lparr>anchor_href = Some (news_path 51), anchor_strings = [marker_phrase]\<rparr>],
      find_pager_last = None\<rparr>"

text \<open>A page whose only anchor carries the marker phrase and no \<open>href\<close>.\<close>

definition page_anchor_without_href :: soup where
  "page_anchor_without_href =
     \<lparr>find_all_a_ru = [\<lparr>anchor_href = None, anchor_strings = [marker_phrase]\<rparr>],
      find_pager_last = None\<rparr>"

text \<open>A page whose only anchor has an \<open>href\<close> and another text (\<open>abc\<close>).\<close>

definition page_other_anchor :: soup where
  "page_other_anchor =
     \<lparr>find_all_a_ru = [\<lparr>anchor_href = Some (news_path 49), anchor_strings = [[97, 98, 99]]\<rparr>],
      find_pager_last = None\<rparr>"

text \<open>A bootstrap page whose last-page anchor has the \<open>href\<close> \<open>5\<close>.\<close>

definition bootstrap_page_five :: soup where
  "bootstrap_page_five =
     \<lparr>find_all_a_ru = [],
      find_pager_last = Some (Some \<lparr>anchor_href = Some [53], anchor_strings = []\<rparr>)\<rparr>"

text \<open>The two crawlers as their constructors build them from the seed URL of the example.\<close>

definition example_crawler :: crawler where
  "example_crawler =
     \<lparr>seed_urls = [seed_example], urls = [],
      url_pattern = takeWhile (\<lambda>c. c \<noteq> 63) seed_example, requested = []\<rparr>"

definition example_crawler_recursive :: crawler_recursive where
  "example_crawler_recursive =
     \<lparr>seed_urls = [seed_example], urls = [],
      url_pattern = takeWhile (\<lambda>c. c \<noteq> 63) seed_example, requested = [],
      inforced_stop = False, start_url = butlast seed_example\<rparr>"

text \<open>Networks: every request answered with the same response.\<close>

definition net_const :: "bool \<Rightarrow> soup \<Rightarrow> soup network" where
  "net_const status page = (\<lambda>u. Inr \<lparr>ok = status, doc = page\<rparr>)"

text \<open>
  A network that answers the start URL of the example with the bootstrap page and every
  other URL with a page without anchors.
\<close>

definition net_five_pages :: "soup network" where
  "net_five_pages =
     (\<lambda>u. if u = butlast seed_example then Inr \<lparr>ok = True, doc = bootstrap_page_five\<rparr>
          else Inr \<lparr>ok = True, doc = empty_page\<rparr>)"

text \<open>
  A network that answers the start URL of the example with the bootstrap page and every
  other URL with the page whose marker anchor has no \<open>href\<close>.
\<close>

definition net_five_raising :: "soup network" where
  "net_five_raising =
     (\<lambda>u. if u = butlast seed_example then Inr \<lparr>ok = True, doc = bootstrap_page_five\<rparr>
          else Inr \<lparr>ok = True, doc = page_anchor_without_href\<rparr>)"

section \<open>Properties of the config validation\<close>

lemmas key_defs = key_seed_urls_def key_total_articles_def key_headers_def key_encoding_def
  key_timeout_def key_should_verify_certificate_def key_headless_mode_def

lemmas check_defs = check_seed_urls_def check_num_articles_def check_headers_def
  check_encoding_def check_verify_def check_timeout_def

lemma mk_conf_subscript:
  "subscript (mk_conf s n t) key_seed_urls = Inr s"
  "subscript (mk_conf s n t) key_total_articles = Inr n"
  "subscript (mk_conf s n t) key_headers = Inr (JDict [])"
  "subscript (mk_conf s n t) key_encoding = Inr (JStr [117, 116, 102, 45, 56])"
  "subscript (mk_conf s n t) key_timeout = Inr t"
  "subscript (mk_conf s n t) key_should_verify_certificate = Inr (JBool True)"
  "subscript (mk_conf s n t) key_headless_mode = Inr (JBool False)"
  by (simp_all add: mk_conf_def key_defs)

lemma seed_example_ok: "check_seed_urls (mk_conf (JList [JStr seed_example]) n t) = Inr ()"
  by (simp add: check_seed_urls_def mk_conf_subscript seed_example_def https_prefix_def)

lemma all_match_strings:
  "all_match (map JStr ss) = Inr (\<forall>s \<in> set ss. take (length https_prefix) s = https_prefix)"
  by (induction ss) auto

lemma subscript_Inl: "subscript conf k = Inl e \<Longrightarrow> e = KeyError \<or> e = TypeError"
  by (cases conf) (auto split: option.splits)

lemma later_checks_not_seed:
  "check_num_articles conf \<noteq> Inl IncorrectSeedURLError"
  "check_headers conf \<noteq> Inl IncorrectSeedURLError"
  "check_encoding conf \<noteq> Inl IncorrectSeedURLError"
  "check_verify conf \<noteq> Inl IncorrectSeedURLError"
  "check_timeout conf \<noteq> Inl IncorrectSeedURLError"
  by (auto simp: check_defs split: sum.splits if_splits dest: subscript_Inl)

lemma later_checks_not_num:
  "check_headers conf \<noteq> Inl IncorrectNumberOfArticlesError"
  "check_encoding conf \<noteq> Inl IncorrectNumberOfArticlesError"
  "check_verify conf \<noteq> Inl IncorrectNumberOfArticlesError"
  "check_timeout conf \<noteq> Inl IncorrectNumberOfArticlesError"
  "check_headers conf \<noteq> Inl NumberOfArticlesOutOfRangeError"
  "check_encoding conf \<noteq> Inl NumberOfArticlesOutOfRangeError"
  "check_verify conf \<noteq> Inl NumberOfArticlesOutOfRangeError"
  "check_timeout conf \<noteq> Inl NumberOfArticlesOutOfRangeError"
  by (auto simp: check_defs split: sum.splits if_splits dest: subscript_Inl)

lemma and_then_simps:
  "and_then (Inl e) s = Inl e"
  "and_then (Inr u) s = s"
  by (simp_all add: and_then_def)

lemma and_then_eq_Inl:
  "and_then r s = Inl e \<longleftrightarrow> r = Inl e \<or> ((\<exists>u. r = Inr u) \<and> s = Inl e)"
  by (cases r) (simp_all add: and_then_def)

text \<open>
  C1, as the claim states it, fails: the integer 0 passes the first check of line 121
  (it is an \<open>int\<close>, it is not negative, it is not a \<open>bool\<close>) and is rejected by the range
  check of line 123, so the error is NumberOfArticlesOutOfRangeError and not
  IncorrectNumberOfArticlesError.
\<close>

theorem num_articles_zero_counterexample:
  "\<not> validate_config_content (mk_conf (JList [JStr seed_example]) (JInt 0) (JInt 5))
       = Inl IncorrectNumberOfArticlesError"
  by (simp add: validate_config_content_def seed_example_ok and_then_simps
        check_num_articles_def mk_conf_subscript)

text \<open>
  C1, amended: in a document whose seed URLs pass their check and whose number of
  articles is the integer \<open>n\<close>, validation raises IncorrectNumberOfArticlesError when
  \<open>n\<close> is negative, NumberOfArticlesOutOfRangeError when \<open>n\<close> is 0 or above 150, and
  neither of the two when \<open>n\<close> is between 1 and 150. With the other fields well-typed,
  the counts 1 and 150 validate, and 0 and 151 raise NumberOfArticlesOutOfRangeError.
\<close>

theorem num_articles_error_kind:
  assumes "check_seed_urls conf = Inr ()"
      and "subscript conf key_total_articles = Inr (JInt n)"
  shows "(n < 0 \<longrightarrow> validate_config_content conf = Inl IncorrectNumberOfArticlesError)
       \<and> (n = 0 \<or> 150 < n \<longrightarrow>
            validate_config_content conf = Inl NumberOfArticlesOutOfRangeError)
       \<and> (1 \<le> n \<and> n \<le> 150 \<longrightarrow>
            validate_config_content conf \<noteq> Inl IncorrectNumberOfArticlesError
          \<and> validate_config_content conf \<noteq> Inl NumberOfArticlesOutOfRangeError)
       \<and> validate_config_content (mk_conf (JList [JStr seed_example]) (JInt 0) (JInt 5))
            = Inl NumberOfArticlesOutOfRangeError
       \<and> validate_config_content (mk_conf (JList [JStr seed_example]) (JInt 1) (JInt 5))
            = Inr ()
       \<and> validate_config_content (mk_conf (JList [JStr seed_example]) (JInt 150) (JInt 5))
            = Inr ()
       \<and> validate_config_content (mk_conf (JList [JStr seed_example]) (JInt 151) (JInt 5))
            = Inl NumberOfArticlesOutOfRangeError"
proof -
  have general:
    "(n < 0 \<longrightarrow> validate_config_content conf = Inl IncorrectNumberOfArticlesError)
       \<and> (n = 0 \<or> 150 < n \<longrightarrow>
            validate_config_content conf = Inl NumberOfArticlesOutOfRangeError)
       \<and> (1 \<le> n \<and> n \<le> 150 \<longrightarrow>
            validate_config_content conf \<noteq> Inl IncorrectNumberOfArticlesError
          \<and> validate_config_content conf \<noteq> Inl NumberOfArticlesOutOfRangeError)"
    using assms
    by (auto simp: validate_config_content_def and_then_simps check_num_articles_def
          and_then_eq_Inl later_checks_not_num)
  have examples:
    "validate_config_content (mk_conf (JList [JStr seed_example]) (JInt 0) (JInt 5))
       = Inl NumberOfArticlesOutOfRangeError"
    "validate_config_content (mk_conf (JList [JStr seed_example]) (JInt 1) (JInt 5)) = Inr ()"
    "validate_config_content (mk_conf (JList [JStr seed_example]) (JInt 150) (JInt 5)) = Inr ()"
    "validate_config_content (mk_conf (JList [JStr seed_example]) (JInt 151) (JInt 5))
       = Inl NumberOfArticlesOutOfRangeError"
    by (simp_all add: validate_config_content_def seed_example_ok and_then_simps
          check_num_articles_def check_headers_def check_encoding_def check_verify_def
          check_timeout_def mk_conf_subscript)
  from general examples show ?thesis by simp
qed

theorem num_articles_error_kind_witness:
  "check_seed_urls (mk_conf (JList [JStr seed_example]) (JInt (- 1)) (JInt 5)) = Inr ()
   \<and> subscript (mk_conf (JList [JStr seed_example]) (JInt (- 1)) (JInt 5)) key_total_articles
       = Inr (JInt (- 1))
   \<and> validate_config_content (mk_conf (JList [JStr seed_example]) (JInt (- 1)) (JInt 5))
       = Inl IncorrectNumberOfArticlesError"
  using num_articles_error_kind
    [of "mk_conf (JList [JStr seed_example]) (JInt (- 1)) (JInt 5)" "- 1"]
  by (simp add: seed_example_ok mk_conf_subscript)

text \<open>
  C2, as the claim states it, fails: for an empty list \<open>all\<close> of no items is true, the seed
  URL check passes, and with the other fields valid the whole validation succeeds.
\<close>

theorem empty_seed_urls_counterexample:
  "\<not> validate_config_content (mk_conf (JList []) (JInt 10) (JInt 5))
       = Inl IncorrectSeedURLError"
  by (simp add: validate_config_content_def and_then_simps check_defs mk_conf_subscript)

text \<open>
  C2, amended: validation raises IncorrectSeedURLError whenever the seed URL field is not a
  list; and when it is a list of strings, it raises IncorrectSeedURLError exactly when
  some string of the list does not begin with \<open>https://\<close>. In particular an empty list
  of seed URLs does not raise IncorrectSeedURLError.
\<close>

theorem seed_urls_error_kind:
  assumes "subscript conf key_seed_urls = Inr v"
  shows "(\<not> isinstance_list v \<longrightarrow> validate_config_content conf = Inl IncorrectSeedURLError)
       \<and> (\<forall>ss. v = JList (map JStr ss) \<longrightarrow>
            (validate_config_content conf = Inl IncorrectSeedURLError
               \<longleftrightarrow> (\<exists>s \<in> set ss. take (length https_prefix) s \<noteq> https_prefix)))
       \<and> (v = JList [] \<longrightarrow> validate_config_content conf \<noteq> Inl IncorrectSeedURLError)"
proof -
  have not_list: "\<not> isinstance_list v \<Longrightarrow> check_seed_urls conf = Inl IncorrectSeedURLError"
    using assms by (simp add: check_seed_urls_def)
  have strings: "check_seed_urls conf =
      (if \<forall>s \<in> set ss. take (length https_prefix) s = https_prefix
       then Inr () else Inl IncorrectSeedURLError)"
    if "v = JList (map JStr ss)" for ss
    using assms that by (simp add: check_seed_urls_def all_match_strings)
  have later: "validate_config_content conf \<noteq> Inl IncorrectSeedURLError"
    if "check_seed_urls conf = Inr ()"
    using that
    by (simp add: validate_config_content_def and_then_simps and_then_eq_Inl
          later_checks_not_seed)
  have first: "validate_config_content conf = Inl IncorrectSeedURLError"
    if "check_seed_urls conf = Inl IncorrectSeedURLError"
    using that by (simp add: validate_config_content_def and_then_simps)
  have empty: "validate_config_content conf \<noteq> Inl IncorrectSeedURLError" if "v = JList []"
    using strings [of "[]"] that later by simp
  have iff: "validate_config_content conf = Inl IncorrectSeedURLError
               \<longleftrightarrow> (\<exists>s \<in> set ss. take (length https_prefix) s \<noteq> https_prefix)"
    if v: "v = JList (map JStr ss)" for ss
  proof (cases "\<forall>s \<in> set ss. take (length https_prefix) s = https_prefix")
    case True
    with strings [OF v] have "check_seed_urls conf = Inr ()" by simp
    with later True show ?thesis by simp
  next
    case False
    with strings [OF v] have "check_seed_urls conf = Inl IncorrectSeedURLError" by simp
    with first False show ?thesis by simp
  qed
  show ?thesis
    using not_list first iff empty by simp
qed

theorem seed_urls_error_kind_witness:
  "subscript (mk_conf (JInt 7) (JInt 10) (JInt 5)) key_seed_urls = Inr (JInt 7)
   \<and> \<not> isinstance_list (JInt 7)
   \<and> validate_config_content (mk_conf (JInt 7) (JInt 10) (JInt 5)) = Inl IncorrectSeedURLError"
  using seed_urls_error_kind [of "mk_conf (JInt 7) (JInt 10) (JInt 5)" "JInt 7"]
  by (simp add: mk_conf_subscript)

text \<open>
  The timeout check on integers: with the other fields valid, an integer timeout \<open>t\<close>
  validates when \<open>0 < t < 60\<close> and raises IncorrectTimeoutError otherwise; so 0 and 60
  fail, 1 and 59 succeed.
\<close>

lemma timeout_int_boundary:
  "validate_config_content (mk_conf (JList [JStr seed_example]) (JInt 10) (JInt t))
     = (if 0 < t \<and> t < 60 then Inr () else Inl IncorrectTimeoutError)"
  by (simp add: validate_config_content_def seed_example_ok and_then_simps
        check_num_articles_def check_headers_def check_encoding_def check_verify_def
        check_timeout_def mk_conf_subscript)

text \<open>
  C6: the claim holds on integers (lemma above) but the code misses a case. A document
  whose timeout is the JSON boolean \<open>true\<close> is not an integer strictly between 0 and 60,
  yet \<open>isinstance(True, int)\<close> holds in Python and \<open>True\<close> compares as 1, so line 136
  lets it through and the validation succeeds. The check of the number of articles
  (line 121) excludes booleans explicitly; the timeout check does not.
\<close>

theorem timeout_boolean_accepted:
  "validate_config_content (mk_conf (JList [JStr seed_example]) (JInt 10) (JBool True))
     = Inr ()"
  by (simp add: validate_config_content_def seed_example_ok and_then_simps
        check_num_articles_def check_headers_def check_encoding_def check_verify_def
        check_timeout_def mk_conf_subscript)

section \<open>Properties of the crawlers\<close>

lemma collect_const:
  "collect (map (\<lambda>i. x) ns) =
     (case x of Inl e \<Rightarrow> (if ns = [] then Inr [] else Inl e)
              | Inr u \<Rightarrow> Inr (replicate (length ns) u))"
  by (induction ns) (auto split: sum.splits)

lemma collect_ten:
  "collect (map (\<lambda>i. x) [0..<10]) =
     (case x of Inl e \<Rightarrow> Inl e | Inr u \<Rightarrow> Inr (replicate 10 u))"
  by (simp add: collect_const split: sum.splits)

lemma crawl_page_not_ok:
  "net seed = Inr resp \<Longrightarrow> \<not> ok resp \<Longrightarrow>
   crawl_page net c seed = Inr (c\<lparr>requested := requested c @ [seed]\<rparr>)"
  by (simp add: crawl_page_def)

lemma crawl_page_ok:
  "net seed = Inr resp \<Longrightarrow> ok resp \<Longrightarrow>
   crawl_page net c seed =
     (case extract_url (url_pattern c) (urls c) (doc resp) of
        Inl e \<Rightarrow> Inl e
      | Inr u \<Rightarrow> Inr (c\<lparr>requested := requested c @ [seed], urls := urls c @ replicate 10 u\<rparr>))"
  by (simp add: crawl_page_def collect_ten Let_def split: sum.splits)

lemma crawl_page_raise: "net seed = Inl e \<Longrightarrow> crawl_page net c seed = Inl e"
  by (simp add: crawl_page_def)

lemma scan_links_no_marker:
  "\<forall>l \<in> set links. marker_phrase \<notin> set (anchor_strings l) \<Longrightarrow>
   scan_links collected url links = url"
  by (induction links) auto

lemma extract_url_no_marker:
  "\<forall>l \<in> set (find_all_a_ru bs). marker_phrase \<notin> set (anchor_strings l) \<Longrightarrow>
   extract_url pattern collected bs = Inr pattern"
  by (simp add: extract_url_def scan_links_no_marker)

lemma crawl_page_requested:
  "crawl_page net c seed = Inr c' \<Longrightarrow> requested c' = requested c @ [seed]
     \<and> url_pattern c' = url_pattern c \<and> seed_urls c' = seed_urls c \<and> crawler.more c' = crawler.more c"
  by (auto simp: crawl_page_def Let_def split: sum.splits if_splits)

lemma crawl_pages_requested:
  "crawl_pages net c seeds = Inr c' \<Longrightarrow> requested c' = requested c @ seeds"
  by (induction seeds arbitrary: c) (auto split: sum.splits dest: crawl_page_requested)


lemma crawl_page_length:
  "crawl_page net c seed = Inr c' \<Longrightarrow>
   length (urls c') = length (urls c) + (if fetch_ok net seed then 10 else 0)"
  by (auto simp: crawl_page_def Let_def collect_ten fetch_ok_def split: sum.splits if_splits)

lemma crawl_pages_length:
  "crawl_pages net c seeds = Inr c' \<Longrightarrow>
   length (urls c') = length (urls c) + 10 * length (filter (fetch_ok net) seeds)"
  by (induction seeds arbitrary: c) (auto split: sum.splits dest: crawl_page_length)

lemma page_urls_length: "length (page_urls start N) = nat N"
  by (simp add: page_urls_def)

lemma page_urls_nth: "i < nat N \<Longrightarrow> page_urls start N ! i = start @ str_nat i"
  by (simp add: page_urls_def)


lemma example_inits:
  "crawler_init [seed_example] = Inr example_crawler"
  "crawler_recursive_init [seed_example] = Inr example_crawler_recursive"
  by (simp_all add: crawler_init_def crawler_recursive_init_def example_crawler_def
        example_crawler_recursive_def crawler.extend_def)

text \<open>
  C3, as the claim states it, fails: when the bootstrap request returns a response that
  is not \<open>ok\<close>, line 304 skips the discovery, \<open>last_page\<close> stays 0, no page URL is
  synthesized and the run returns normally with no URL collected.
\<close>

theorem bootstrap_not_ok_counterexample:
  "find_articles_recursive (net_const False empty_page) example_crawler_recursive
     = Inr (example_crawler_recursive\<lparr>requested := [start_url example_crawler_recursive]\<rparr>)"
  by (simp add: find_articles_recursive_def net_const_def page_urls_def
        example_crawler_recursive_def)

text \<open>
  C3, amended: when the bootstrap response is not \<open>ok\<close>, the paginated crawler returns
  normally having made no further request and collected nothing. When the bootstrap
  response is \<open>ok\<close> and the page has no element of the pager class (or that element has
  no \<open>a\<close>), the run fails with AttributeError (TypeError), and when the bootstrap
  request itself raises, that exception ends the run.
\<close>

theorem bootstrap_failure_policy:
  "(net (start_url c) = Inr resp \<and> \<not> ok resp \<longrightarrow>
      find_articles_recursive net c = Inr (c\<lparr>requested := requested c @ [start_url c]\<rparr>))
   \<and> (net (start_url c) = Inr resp \<and> ok resp \<and> find_pager_last (doc resp) = None \<longrightarrow>
      find_articles_recursive net c = Inl AttributeError)
   \<and> (net (start_url c) = Inr resp \<and> ok resp \<and> find_pager_last (doc resp) = Some None \<longrightarrow>
      find_articles_recursive net c = Inl TypeError)
   \<and> (net (start_url c) = Inl e \<longrightarrow> find_articles_recursive net c = Inl e)"
  by (simp add: find_articles_recursive_def page_urls_def read_last_page_def)

theorem bootstrap_failure_policy_witness:
  "find_articles_recursive (net_const True empty_page) example_crawler_recursive = Inl AttributeError
   \<and> find_articles_recursive (net_const False empty_page) example_crawler_recursive
       = Inr (example_crawler_recursive\<lparr>requested := requested example_crawler_recursive @ [start_url example_crawler_recursive]\<rparr>)
   \<and> find_articles_recursive (\<lambda>u. Inl RequestException) example_crawler_recursive = Inl RequestException"
  using bootstrap_failure_policy [of "net_const True empty_page" example_crawler_recursive
           "\<lparr>ok = True, doc = empty_page\<rparr>" RequestException]
        bootstrap_failure_policy [of "net_const False empty_page" example_crawler_recursive
           "\<lparr>ok = False, doc = empty_page\<rparr>" RequestException]
        bootstrap_failure_policy [of "\<lambda>u. Inl RequestException" example_crawler_recursive
           "\<lparr>ok = False, doc = empty_page\<rparr>" RequestException]
  by (simp add: net_const_def empty_page_def)

text \<open>
  C4, as the claim states it, fails: on a page that is fetched successfully and whose
  anchor with the marker phrase has no \<open>href\<close>, \<open>link.get('href')\<close> is None, line 260
  raises TypeError and the run appends nothing.
\<close>

theorem anchor_without_href_counterexample:
  "find_articles (net_const True page_anchor_without_href) example_crawler = Inl TypeError"
  by (simp add: find_articles_def get_search_urls_def example_crawler_def net_const_def
        crawl_page_def page_anchor_without_href_def extract_url_def not_in_urls_def upt_rec)

lemma find_articles_length:
  "find_articles net c = Inr c' \<Longrightarrow>
   length (urls c') = length (urls c) + 10 * length (filter (fetch_ok net) (seed_urls c))"
  by (simp add: find_articles_def get_search_urls_def crawl_pages_length)

text \<open>
  C4, amended: a seed URL whose response is not \<open>ok\<close> adds no URL. A seed URL whose
  response is \<open>ok\<close> and on whose page \<open>_extract_url\<close> returns a URL \<open>u\<close> adds exactly
  ten entries, ten copies of \<open>u\<close>, however many anchors the page has. A run of the flat
  crawler that returns has collected ten URLs for each seed URL with an \<open>ok\<close> response.
\<close>

theorem flat_crawler_ten_per_page:
  "(net seed = Inr resp \<and> \<not> ok resp \<longrightarrow>
      crawl_page net c seed = Inr (c\<lparr>requested := requested c @ [seed]\<rparr>))
   \<and> (net seed = Inr resp \<and> ok resp
        \<and> extract_url (url_pattern c) (urls c) (doc resp) = Inr u \<longrightarrow>
      crawl_page net c seed
        = Inr (c\<lparr>requested := requested c @ [seed], urls := urls c @ replicate 10 u\<rparr>))
   \<and> (find_articles net c = Inr c' \<longrightarrow>
      length (urls c') = length (urls c) + 10 * length (filter (fetch_ok net) (seed_urls c)))"
  using find_articles_length [of net c c']
  by (auto simp: crawl_page_not_ok crawl_page_ok)

lemma extract_three:
  "extract_url p [] page_three_anchors = Inr (p @ [47, 49])"
  by (simp add: extract_url_def page_three_anchors_def not_in_urls_def news_path_def news_literal_def)

theorem flat_crawler_ten_per_page_witness:
  "crawl_page (net_const True page_three_anchors) example_crawler seed_example
     = Inr (example_crawler\<lparr>requested := requested example_crawler @ [seed_example],
              urls := urls example_crawler @ replicate 10 (url_pattern example_crawler @ [47, 49])\<rparr>)
   \<and> crawl_page (net_const False page_three_anchors) example_crawler seed_example
     = Inr (example_crawler\<lparr>requested := requested example_crawler @ [seed_example]\<rparr>)"
  using flat_crawler_ten_per_page [of "net_const True page_three_anchors" seed_example
           "\<lparr>ok = True, doc = page_three_anchors\<rparr>" example_crawler "url_pattern example_crawler @ [47, 49]"]
        flat_crawler_ten_per_page [of "net_const False page_three_anchors" seed_example
           "\<lparr>ok = False, doc = page_three_anchors\<rparr>" example_crawler]
  by (simp add: net_const_def extract_three example_crawler_def)

text \<open>
  C10: on a page that is fetched successfully and has no \<open>hreflang="ru"\<close> anchor with the
  marker phrase among its strings, \<open>_extract_url\<close> returns the base pattern of the
  crawler, and the crawler appends ten copies of it to its collected URLs.
\<close>

theorem no_marker_base_pattern:
  assumes "net seed = Inr resp" and "ok resp"
      and "\<forall>l \<in> set (find_all_a_ru (doc resp)). marker_phrase \<notin> set (anchor_strings l)"
  shows "extract_url (url_pattern c) (urls c) (doc resp) = Inr (url_pattern c)
       \<and> crawl_page net c seed
           = Inr (c\<lparr>requested := requested c @ [seed],
                    urls := urls c @ replicate 10 (url_pattern c)\<rparr>)"
  using assms by (simp add: extract_url_no_marker crawl_page_ok)

theorem no_marker_base_pattern_witness:
  "crawl_page (net_const True page_other_anchor) example_crawler seed_example
     = Inr (example_crawler\<lparr>requested := requested example_crawler @ [seed_example],
              urls := urls example_crawler @ replicate 10 (url_pattern example_crawler)\<rparr>)"
  using no_marker_base_pattern [of "net_const True page_other_anchor" seed_example
           "\<lparr>ok = True, doc = page_other_anchor\<rparr>" example_crawler]
  by (simp add: net_const_def page_other_anchor_def marker_phrase_def)

lemma crawl_pages_append:
  "crawl_pages net c (xs @ ys) =
     (case crawl_pages net c xs of Inl e \<Rightarrow> Inl e | Inr c1 \<Rightarrow> crawl_pages net c1 ys)"
  by (induction xs arbitrary: c) (auto split: sum.splits)

lemma crawl_pages_prefix:
  assumes "crawl_pages net c seeds = Inr c'" and "k < length seeds"
  shows "\<exists>ck ck'. crawl_pages net c (take k seeds) = Inr ck
           \<and> crawl_page net ck (seeds ! k) = Inr ck'"
proof -
  have split: "seeds = take k seeds @ seeds ! k # drop (Suc k) seeds"
    using assms(2) by (simp add: id_take_nth_drop)
  have "crawl_pages net c (take k seeds @ seeds ! k # drop (Suc k) seeds) = Inr c'"
    using assms(1) split by simp
  then show ?thesis
    by (auto simp: crawl_pages_append split: sum.splits)
qed

lemma crawl_pages_raise:
  "crawl_pages net c seeds = Inl e \<Longrightarrow>
   \<exists>k < length seeds. \<exists>ck. crawl_pages net c (take k seeds) = Inr ck
      \<and> crawl_page net ck (seeds ! k) = Inl e"
proof (induction seeds arbitrary: c)
  case Nil
  then show ?case by simp
next
  case (Cons s seeds)
  show ?case
  proof (cases "crawl_page net c s")
    case (Inl e')
    with Cons.prems have "e' = e" by simp
    with Inl have "crawl_pages net c (take 0 (s # seeds)) = Inr c
        \<and> crawl_page net c ((s # seeds) ! 0) = Inl e" by simp
    then show ?thesis by blast
  next
    case (Inr c1)
    with Cons.prems have "crawl_pages net c1 seeds = Inl e" by simp
    from Cons.IH [OF this] obtain k ck where k: "k < length seeds"
      and ck: "crawl_pages net c1 (take k seeds) = Inr ck"
      and raise: "crawl_page net ck (seeds ! k) = Inl e" by blast
    have "Suc k < length (s # seeds)
        \<and> crawl_pages net c (take (Suc k) (s # seeds)) = Inr ck
        \<and> crawl_page net ck ((s # seeds) ! Suc k) = Inl e"
      using k ck raise Inr by simp
    then show ?thesis by blast
  qed
qed

lemma bootstrap_run:
  assumes "net (start_url c) = Inr resp" and "ok resp"
      and "find_pager_last (doc resp) = Some (Some a)" and "anchor_href a = Some h"
      and "py_int h = Inr N"
  shows "find_articles_recursive net c
           = crawl_pages net (c\<lparr>requested := requested c @ [start_url c]\<rparr>)
               (page_urls (start_url c) N)"
  using assms by (simp add: find_articles_recursive_def read_last_page_def)

lemma crawl_pages_empty_pages:
  "\<forall>s \<in> set seeds. net s = Inr \<lparr>ok = True, doc = empty_page\<rparr> \<Longrightarrow>
   \<exists>c'. crawl_pages net c seeds = Inr c'"
proof (induction seeds arbitrary: c)
  case Nil
  then show ?case by simp
next
  case (Cons s seeds)
  then have "crawl_page net c s = Inr (c\<lparr>requested := requested c @ [s],
                 urls := urls c @ replicate 10 (url_pattern c)\<rparr>)"
    by (simp add: crawl_page_ok extract_url_no_marker empty_page_def)
  with Cons show ?case by simp
qed

lemma five_pages_value:
  "page_urls (butlast seed_example) 5 =
     [butlast seed_example @ [48], butlast seed_example @ [49], butlast seed_example @ [50],
      butlast seed_example @ [51], butlast seed_example @ [52]]"
  by (simp add: page_urls_def upt_rec str_nat.simps)

lemma five_pages_run:
  "\<exists>c'. find_articles_recursive net_five_pages example_crawler_recursive = Inr c'"
proof -
  have boot: "net_five_pages (butlast seed_example)
                = Inr \<lparr>ok = True, doc = bootstrap_page_five\<rparr>"
    by (simp add: net_five_pages_def)
  have last: "read_last_page bootstrap_page_five = Inr 5"
    by (simp add: read_last_page_def bootstrap_page_five_def py_int_def strip_def to_ascii_def
          is_ascii_space_def is_digit_def digit_value_def int_max_str_digits_def)
  have pages: "\<forall>s \<in> set (page_urls (butlast seed_example) 5).
                 net_five_pages s = Inr \<lparr>ok = True, doc = empty_page\<rparr>"
    by (simp add: five_pages_value net_five_pages_def)
  have start: "start_url example_crawler_recursive = butlast seed_example"
    by (simp add: example_crawler_recursive_def)
  show ?thesis
    using crawl_pages_empty_pages [OF pages]
    by (simp add: find_articles_recursive_def boot last start)
qed

lemmas py_int_eval = py_int_def strip_def to_ascii_def is_ascii_space_def is_digit_def
  digit_value_def int_max_str_digits_def

lemma read_last_page_five: "read_last_page bootstrap_page_five = Inr 5"
  by (simp add: read_last_page_def bootstrap_page_five_def py_int_eval)

text \<open>
  C5, as the claim states it, fails: the bootstrap page advertises the last-page index 5,
  but the first listing page has a marker anchor without \<open>href\<close>, its extraction raises
  TypeError and the run ends there; the pages 1 to 4 are never requested.
\<close>

theorem raising_page_counterexample:
  "find_articles_recursive net_five_raising example_crawler_recursive = Inl TypeError"
proof -
  have start: "start_url example_crawler_recursive = butlast seed_example"
    by (simp add: example_crawler_recursive_def)
  have boot: "net_five_raising (butlast seed_example)
                = Inr \<lparr>ok = True, doc = bootstrap_page_five\<rparr>"
    by (simp add: net_five_raising_def)
  have page: "net_five_raising (butlast seed_example @ [48])
                = Inr \<lparr>ok = True, doc = page_anchor_without_href\<rparr>"
    by (simp add: net_five_raising_def)
  have no_url: "extract_url p us page_anchor_without_href = Inl TypeError" for p us
    by (simp add: extract_url_def page_anchor_without_href_def not_in_urls_def)
  have "crawl_page net_five_raising c (butlast seed_example @ [48]) = Inl TypeError"
    for c :: crawler_recursive
    using crawl_page_ok [of net_five_raising "butlast seed_example @ [48]"
            "\<lparr>ok = True, doc = page_anchor_without_href\<rparr>" c] page
    by (simp add: no_url)
  then show ?thesis
    by (simp add: find_articles_recursive_def start boot read_last_page_five five_pages_value)
qed

text \<open>
  C5, amended: when the bootstrap page advertises the last-page index \<open>N\<close>, the crawler
  synthesizes exactly \<open>N\<close> listing-page URLs (none when \<open>N\<close> is not positive), the start
  URL followed by the decimal page index, for the indices from 0 up to \<open>N\<close> excluded in
  ascending order. A run that returns has crawled every one of them, page \<open>k\<close> from the
  state that the pages before it left, has requested the start URL and then exactly
  these URLs in that order, and has collected ten URLs for each of them whose response
  was \<open>ok\<close>. A run that raises has crawled the pages before some index \<open>k\<close> in that
  order and raised while crawling page \<open>k\<close>; the later pages are not requested.
\<close>

theorem pages_in_order:
  assumes "net (start_url c) = Inr resp" and "ok resp"
      and "find_pager_last (doc resp) = Some (Some a)" and "anchor_href a = Some h"
      and "py_int h = Inr N"
  shows "int (length (page_urls (start_url c) N)) = max 0 N
       \<and> (\<forall>i < nat N. page_urls (start_url c) N ! i = start_url c @ str_nat i)
       \<and> (\<forall>c'. find_articles_recursive net c = Inr c' \<longrightarrow>
             requested c' = requested c @ start_url c # page_urls (start_url c) N
           \<and> length (urls c') = length (urls c)
                + 10 * length (filter (fetch_ok net) (page_urls (start_url c) N))
           \<and> (\<forall>k < nat N. \<exists>ck ck'.
                 crawl_pages net (c\<lparr>requested := requested c @ [start_url c]\<rparr>)
                   (take k (page_urls (start_url c) N)) = Inr ck
               \<and> crawl_page net ck (start_url c @ str_nat k) = Inr ck'))
       \<and> (\<forall>e. find_articles_recursive net c = Inl e \<longrightarrow>
             (\<exists>k < nat N. \<exists>ck.
                 crawl_pages net (c\<lparr>requested := requested c @ [start_url c]\<rparr>)
                   (take k (page_urls (start_url c) N)) = Inr ck
               \<and> requested ck = requested c @ start_url c # take k (page_urls (start_url c) N)
               \<and> crawl_page net ck (start_url c @ str_nat k) = Inl e))"
proof -
  let ?c1 = "c\<lparr>requested := requested c @ [start_url c]\<rparr>"
  let ?pages = "page_urls (start_url c) N"
  have run: "find_articles_recursive net c = crawl_pages net ?c1 ?pages"
    using assms by (rule bootstrap_run)
  have len: "length ?pages = nat N" by (rule page_urls_length)
  have nth: "?pages ! i = start_url c @ str_nat i" if "i < nat N" for i
    using that by (rule page_urls_nth)
  have returns: "requested c' = requested c @ start_url c # ?pages
           \<and> length (urls c') = length (urls c) + 10 * length (filter (fetch_ok net) ?pages)
           \<and> (\<forall>k < nat N. \<exists>ck ck'.
                 crawl_pages net ?c1 (take k ?pages) = Inr ck
               \<and> crawl_page net ck (start_url c @ str_nat k) = Inr ck')"
    if "find_articles_recursive net c = Inr c'" for c'
  proof -
    from that run have r: "crawl_pages net ?c1 ?pages = Inr c'" by simp
    have "requested c' = requested c @ start_url c # ?pages"
      using crawl_pages_requested [OF r] by simp
    moreover have "length (urls c') = length (urls c)
                     + 10 * length (filter (fetch_ok net) ?pages)"
      using crawl_pages_length [OF r] by simp
    moreover have "\<exists>ck ck'. crawl_pages net ?c1 (take k ?pages) = Inr ck
               \<and> crawl_page net ck (start_url c @ str_nat k) = Inr ck'" if "k < nat N" for k
      using crawl_pages_prefix [OF r, of k] that len nth [OF that] by simp
    ultimately show ?thesis by blast
  qed
  have raises: "\<exists>k < nat N. \<exists>ck.
                 crawl_pages net ?c1 (take k ?pages) = Inr ck
               \<and> requested ck = requested c @ start_url c # take k ?pages
               \<and> crawl_page net ck (start_url c @ str_nat k) = Inl e"
    if "find_articles_recursive net c = Inl e" for e
  proof -
    from that run have "crawl_pages net ?c1 ?pages = Inl e" by simp
    from crawl_pages_raise [OF this] obtain k ck where k: "k < length ?pages"
      and ck: "crawl_pages net ?c1 (take k ?pages) = Inr ck"
      and raise: "crawl_page net ck (?pages ! k) = Inl e" by blast
    have "requested ck = requested c @ start_url c # take k ?pages"
      using crawl_pages_requested [OF ck] by simp
    with k ck raise len nth [of k] show ?thesis by auto
  qed
  show ?thesis
    using len nth returns raises by (simp (no_asm_simp)) blast
qed


theorem pages_in_order_witness:
  "map_sum id (\<lambda>c'. (requested c', length (urls c')))
     (find_articles_recursive net_five_pages example_crawler_recursive)
     = Inr ([butlast seed_example,
             butlast seed_example @ [48], butlast seed_example @ [49],
             butlast seed_example @ [50], butlast seed_example @ [51],
             butlast seed_example @ [52]], 50)"
proof -
  obtain c' where run: "find_articles_recursive net_five_pages example_crawler_recursive = Inr c'"
    using five_pages_run by blast
  have boot: "net_five_pages (start_url example_crawler_recursive)
                = Inr \<lparr>ok = True, doc = bootstrap_page_five\<rparr>"
    by (simp add: net_five_pages_def example_crawler_recursive_def)
  have fetched: "filter (fetch_ok net_five_pages) (page_urls (butlast seed_example) 5)
                   = page_urls (butlast seed_example) 5"
    by (simp add: five_pages_value fetch_ok_def net_five_pages_def)
  have start: "start_url example_crawler_recursive = butlast seed_example"
    by (simp add: example_crawler_recursive_def)
  have "requested c' = requested example_crawler_recursive
          @ start_url example_crawler_recursive
          # page_urls (start_url example_crawler_recursive) 5
      \<and> length (urls c') = length (urls example_crawler_recursive)
          + 10 * length (filter (fetch_ok net_five_pages)
                           (page_urls (start_url example_crawler_recursive) 5))"
    using pages_in_order [of net_five_pages example_crawler_recursive
            "\<lparr>ok = True, doc = bootstrap_page_five\<rparr>"
            "\<lparr>anchor_href = Some [53], anchor_strings = []\<rparr>" "[53]" 5] boot run
    by (simp add: bootstrap_page_five_def py_int_eval)
  then show ?thesis
    using run by (simp add: start fetched page_urls_length) (simp add: example_crawler_recursive_def five_pages_value)
qed


section \<open>Properties of the article parser\<close>

lemmas parser_defs = format_regex_def parse_year_def parse_month_def parse_day_def
  parse_hour_def parse_minute_def parse_second_def two_digits_def alternatives_def
  then_parse_def yield_def literal_def spaces_def is_digit_def digit_value_def is_space_def
  decimal_value_def decimal_zeros_def

lemma strptime_iso: "strptime date_text_iso =
   Inr \<lparr>year = 2023, month = 5, day = 1, hour = 12, minute = 0, second = 0\<rparr>"
  by (simp add: strptime_def first_match_def date_text_iso_def parser_defs
        datetime_accepts_def days_in_month_def)



lemma parse_not_ok:
  "net u = Inr resp \<Longrightarrow> \<not> ok resp \<Longrightarrow> parse net (html_parser_init u i) = Inr (Article u i)"
  by (simp add: parse_def html_parser_init_def)

text \<open>
  C7: when the request for the article URL returns a response that is not \<open>ok\<close>,
  \<open>parse\<close> returns (it does not raise) the article as the constructor made it: URL and
  id set, title, text, date, author and topics unset. In the loop of \<open>main\<close>, once
  \<open>to_raw\<close> and \<open>to_meta\<close> have returned for that article, the run goes on with the
  next URL and the next index.
\<close>

theorem parse_fetch_failure:
  assumes "net u = Inr resp" and "\<not> ok resp"
  shows "parse net (html_parser_init u i) = Inr (Article u i)
       \<and> article_url (Article u i) = u \<and> article_id (Article u i) = i
       \<and> article_title (Article u i) = None \<and> article_text (Article u i) = None
       \<and> article_date (Article u i) = None \<and> article_author (Article u i) = None
       \<and> article_topics (Article u i) = None
       \<and> (to_raw (Article u (index + 1)) files = Inr files1
            \<and> to_meta (Article u (index + 1)) files1 = Inr files2 \<longrightarrow>
          main_loop net to_raw to_meta index (u # rest) files
            = main_loop net to_raw to_meta (index + 1) rest files2)"
  using assms by (simp add: parse_not_ok Article_def)

theorem parse_fetch_failure_witness:
  "parse (\<lambda>u. Inr \<lparr>ok = False, doc = article_page date_text_iso\<rparr>)
         (html_parser_init seed_example 1) = Inr (Article seed_example 1)
   \<and> main_loop (\<lambda>u. Inr \<lparr>ok = False, doc = article_page date_text_iso\<rparr>)
        append_sink append_sink 0 [seed_example, https_prefix] []
       = Inr [Article seed_example 1, Article seed_example 1,
              Article https_prefix 2, Article https_prefix 2]"
  using parse_fetch_failure [of "\<lambda>u. Inr \<lparr>ok = False, doc = article_page date_text_iso\<rparr>"
          seed_example "\<lparr>ok = False, doc = article_page date_text_iso\<rparr>" 1 append_sink 0 "[]"
          "[Article seed_example 1]" append_sink "[Article seed_example 1, Article seed_example 1]"
          "[https_prefix]"]
  by (simp add: append_sink_def parse_not_ok)



text \<open>A successful parse, for comparison: every field is filled.\<close>

lemma parse_iso_page:
  "parse (\<lambda>u. Inr \<lparr>ok = True, doc = article_page date_text_iso\<rparr>)
         (html_parser_init seed_example 1)
     = Inr \<lparr>article_url = seed_example, article_id = 1, article_title = Some [97, 98, 99],
            article_text = Some [97, 98, 99, 10, 100, 101],
            article_date = Some \<lparr>year = 2023, month = 5, day = 1, hour = 12, minute = 0,
                                  second = 0\<rparr>,
            article_author = Some [[121]], article_topics = Some [Some [122]]\<rparr>"
  by (simp add: parse_def html_parser_init_def Article_def article_page_def
        fill_article_with_text_def fill_article_with_meta_information_def
        unify_date_format_def strptime_iso format_string_def add_text_block_def)

section \<open>Properties of the dataset validation\<close>

lemma map_insort_key: "map f (insort_key f x xs) = insort (f x) (map f xs)"
  by (induction xs) auto

lemma map_sort_key: "map f (sort_key f xs) = sort (map f xs)"
  by (induction xs) (auto simp: map_insort_key)

lemma check_pairs_result:
  "check_pairs get_id k ps = Inr () \<or> check_pairs get_id k ps = Inl InconsistentDatasetError"
  by (induction get_id k ps rule: check_pairs.induct) auto

lemma check_pairs_ok:
  "check_pairs get_id k ps = Inr () \<longleftrightarrow>
     map (\<lambda>x. get_id (file_name x)) (map fst ps) = map int [Suc k..<Suc k + length ps]
   \<and> map (\<lambda>x. get_id (file_name x)) (map snd ps) = map int [Suc k..<Suc k + length ps]
   \<and> (\<forall>f \<in> set (map fst ps) \<union> set (map snd ps). st_size f \<noteq> 0)"
proof (induction ps arbitrary: k)
  case Nil
  then show ?case by simp
next
  case (Cons p ps)
  obtain meta raw where p: "p = (meta, raw)" by (cases p)
  have step: "map int [Suc k..<Suc (Suc (k + n))]
                = (int k + 1) # map int [Suc (Suc k)..<Suc (Suc (k + n))]" for n
    by (simp add: upt_conv_Cons del: upt_Suc)
  show ?case
    using Cons.IH [of "Suc k"]
    by (auto simp add: p step simp del: upt_Suc)
qed

lemma validate_dataset_cases:
  "validate_dataset get_id (Directory []) = Inl EmptyDirectoryError
   \<and> (entries \<noteq> [] \<longrightarrow>
        validate_dataset get_id (Directory entries) =
          (if length (glob meta_suffix entries) \<noteq> length (glob raw_suffix entries)
              \<or> (\<exists>f \<in> set (glob meta_suffix entries) \<union> set (glob raw_suffix entries).
                    st_size f = 0)
              \<or> sorted_ids get_id (glob meta_suffix entries)
                   \<noteq> one_to (length (glob meta_suffix entries))
              \<or> sorted_ids get_id (glob raw_suffix entries)
                   \<noteq> one_to (length (glob raw_suffix entries))
           then Inl InconsistentDatasetError else Inr ()))"
proof -
  let ?metas = "glob meta_suffix entries" and ?raws = "glob raw_suffix entries"
  let ?key = "\<lambda>x. get_id (file_name x)"
  let ?ps = "zip (sort_key ?key ?metas) (sort_key ?key ?raws)"
  let ?good = "sorted_ids get_id ?metas = one_to (length ?metas)
    \<and> sorted_ids get_id ?raws = one_to (length ?raws)
    \<and> (\<forall>f \<in> set ?metas \<union> set ?raws. st_size f \<noteq> 0)"
  have empty: "validate_dataset get_id (Directory []) = Inl EmptyDirectoryError"
    by (simp add: validate_dataset_def)
  have nonempty: "validate_dataset get_id (Directory entries) =
      (if length ?metas \<noteq> length ?raws \<or> \<not> ?good then Inl InconsistentDatasetError
       else Inr ())" if ne: "entries \<noteq> []"
  proof (cases "length ?metas = length ?raws")
    case False
    with ne show ?thesis by (simp add: validate_dataset_def)
  next
    case True
    have run: "validate_dataset get_id (Directory entries) = check_pairs get_id 0 ?ps"
      using ne True by (simp add: validate_dataset_def)
    have eq: "check_pairs get_id 0 ?ps = Inr () \<longleftrightarrow> ?good"
      using True unfolding check_pairs_ok
      by (simp add: map_sort_key sorted_ids_def one_to_def)
    show ?thesis
    proof (cases "check_pairs get_id 0 ?ps = Inr ()")
      case ok: True
      with eq have ?good by simp
      with ok run True show ?thesis by simp
    next
      case bad: False
      with eq have "\<not> ?good" by simp
      moreover from bad check_pairs_result [of get_id 0 ?ps]
      have "check_pairs get_id 0 ?ps = Inl InconsistentDatasetError" by simp
      ultimately show ?thesis using run True by simp
    qed
  qed
  have "entries \<noteq> [] \<longrightarrow> validate_dataset get_id (Directory entries) =
          (if length ?metas \<noteq> length ?raws
              \<or> (\<exists>f \<in> set ?metas \<union> set ?raws. st_size f = 0)
              \<or> sorted_ids get_id ?metas \<noteq> one_to (length ?metas)
              \<or> sorted_ids get_id ?raws \<noteq> one_to (length ?raws)
           then Inl InconsistentDatasetError else Inr ())"
  proof
    assume ne: "entries \<noteq> []"
    have "(length ?metas \<noteq> length ?raws \<or> \<not> ?good) \<longleftrightarrow>
          (length ?metas \<noteq> length ?raws
              \<or> (\<exists>f \<in> set ?metas \<union> set ?raws. st_size f = 0)
              \<or> sorted_ids get_id ?metas \<noteq> one_to (length ?metas)
              \<or> sorted_ids get_id ?raws \<noteq> one_to (length ?raws))"
      by auto
    then show "validate_dataset get_id (Directory entries) =
          (if length ?metas \<noteq> length ?raws
              \<or> (\<exists>f \<in> set ?metas \<union> set ?raws. st_size f = 0)
              \<or> sorted_ids get_id ?metas \<noteq> one_to (length ?metas)
              \<or> sorted_ids get_id ?raws \<noteq> one_to (length ?raws)
           then Inl InconsistentDatasetError else Inr ())"
      using nonempty [OF ne] by presburger
  qed
  with empty show ?thesis by (rule conjI)
qed

lemmas dataset_example_defs = glob_def ends_with_def raw_file_def meta_file_def
  raw_suffix_def meta_suffix_def embedded_id_def py_int_def strip_def to_ascii_def
  is_ascii_space_def is_digit_def digit_value_def int_max_str_digits_def

lemma dataset_ids_differ:
  "validate_dataset embedded_id
     (Directory [raw_file 1, meta_file 1, raw_file 2, meta_file 2, raw_file 3, meta_file 4])
   = Inl InconsistentDatasetError"
  by (simp add: validate_dataset_def dataset_example_defs)

lemma dataset_ids_match:
  "validate_dataset embedded_id
     (Directory [raw_file 3, meta_file 1, raw_file 2, meta_file 3, raw_file 1, meta_file 2])
   = Inr ()"
  by (simp add: validate_dataset_def dataset_example_defs)

text \<open>
  C9: on an existing directory, \<open>_validate_dataset\<close> raises EmptyDirectoryError when the
  directory has no entry. On a directory with entries it raises InconsistentDatasetError
  when the numbers of meta and raw files differ, when a meta or raw file has size 0, or
  when the ids of the meta files or of the raw files, sorted, are not \<open>1..N\<close>; in every
  other case it returns. With raw ids 1, 2, 3 and meta ids 1, 2, 4 it raises
  InconsistentDatasetError; with ids 1, 2, 3 on both sides and no empty file it returns.
\<close>

theorem dataset_integrity:
  "validate_dataset get_id (Directory []) = Inl EmptyDirectoryError
   \<and> (entries \<noteq> [] \<longrightarrow>
        validate_dataset get_id (Directory entries) =
          (if length (glob meta_suffix entries) \<noteq> length (glob raw_suffix entries)
              \<or> (\<exists>f \<in> set (glob meta_suffix entries) \<union> set (glob raw_suffix entries).
                    st_size f = 0)
              \<or> sorted_ids get_id (glob meta_suffix entries)
                   \<noteq> one_to (length (glob meta_suffix entries))
              \<or> sorted_ids get_id (glob raw_suffix entries)
                   \<noteq> one_to (length (glob raw_suffix entries))
           then Inl InconsistentDatasetError else Inr ()))
   \<and> validate_dataset embedded_id
        (Directory [raw_file 1, meta_file 1, raw_file 2, meta_file 2, raw_file 3, meta_file 4])
      = Inl InconsistentDatasetError
   \<and> validate_dataset embedded_id
        (Directory [raw_file 3, meta_file 1, raw_file 2, meta_file 3, raw_file 1, meta_file 2])
      = Inr ()"
  using validate_dataset_cases [of get_id entries] dataset_ids_differ dataset_ids_match
  by simp

theorem dataset_integrity_witness:
  "validate_dataset embedded_id
     (Directory [raw_file 1, \<lparr>file_name = 49 # meta_suffix, st_size = 0\<rparr>])
   = Inl InconsistentDatasetError"
  using dataset_integrity
    [of embedded_id "[raw_file 1, \<lparr>file_name = 49 # meta_suffix, st_size = 0\<rparr>]"]
  by (simp add: dataset_example_defs)

end
